theory Spec2Isabelle
  imports Main
begin

section \<open>Python text\<close>

text \<open>
  A Python \<open>str\<close> is a sequence of Unicode code points; \<open>len\<close> counts code points and
  a slice takes code points. A code point is a natural number here, so the emoji of the
  program's messages are single characters, as in the source. \<open>lit\<close> embeds an ASCII
  literal.
\<close>

type_synonym pystr = "nat list"

definition lit :: "string \<Rightarrow> pystr" where
  "lit s = map of_char s"

text \<open>
  \<open>str.lower()\<close>: exact on the code points below 256 (\<open>A\<close>-\<open>Z\<close> and the capital letters
  of Latin-1, all 32 below their small letters). Code points from 256 on are left as they
  are: the program only tests the lowered line for membership in lists of ASCII command
  words, and no line that holds a character from 256 on has one of those words as its
  lowercase form.
\<close>

definition lower_cp :: "nat \<Rightarrow> nat" where
  "lower_cp c =
     (if (65 \<le> c \<and> c \<le> 90) \<or> (192 \<le> c \<and> c \<le> 222 \<and> c \<noteq> 215) then c + 32 else c)"

definition lower :: "pystr \<Rightarrow> pystr" where
  "lower s = map lower_cp s"

text \<open>
  \<open>str.isspace()\<close> for one character, the table of CPython, and \<open>str.strip()\<close> with no
  argument, which removes such characters at both ends.
\<close>

definition isspace :: "nat \<Rightarrow> bool" where
  "isspace c =
     ((9 \<le> c \<and> c \<le> 13) \<or> (28 \<le> c \<and> c \<le> 32) \<or> c = 133 \<or> c = 160 \<or> c = 5760 \<or>
      (8192 \<le> c \<and> c \<le> 8202) \<or> c = 8232 \<or> c = 8233 \<or> c = 8239 \<or> c = 8287 \<or>
      c = 12288)"

definition strip :: "pystr \<Rightarrow> pystr" where
  "strip s = rev (dropWhile isspace (rev (dropWhile isspace s)))"

text \<open>\<open>str(i)\<close> for a non-negative integer: its decimal digits.\<close>

fun str_of_nat :: "nat \<Rightarrow> pystr" where
  "str_of_nat n = (if n < 10 then [48 + n] else str_of_nat (n div 10) @ [48 + n mod 10])"

declare str_of_nat.simps [simp del]

section \<open>Exceptions, console and the external engine\<close>

text \<open>
  The handlers of the source tell three kinds of exception apart: \<open>except Exception\<close>
  catches the instances of \<open>Exception\<close> (the argument is \<open>str(e)\<close>),
  \<open>except KeyboardInterrupt\<close> the interrupt, and neither catches the remaining
  \<open>BaseException\<close>s, of which \<open>SystemExit\<close> stands here.
\<close>

datatype exc = Exception pystr | KeyboardInterrupt | SystemExit

text \<open>
  Standard output is the sequence of texts written to it; \<open>print\<close> writes its argument
  and a newline. The state of everything outside the program that the engine may read or
  change (the language model, the Python tool) is \<open>engine_state\<close>.
\<close>

record 'w world =
  stdout :: "pystr list"
  engine_state :: 'w

definition print :: "pystr \<Rightarrow> 'w world \<Rightarrow> 'w world" where
  "print x w = w\<lparr>stdout := stdout w @ [x @ [10]]\<rparr>"

text \<open>
  Standard output encodes its text as UTF-8. A surrogate code point (\<open>U+D800\<close> to
  \<open>U+DFFF\<close>) has no encoding: \<open>print\<close> of a text that holds one writes nothing and
  raises \<open>UnicodeEncodeError\<close>, an \<open>Exception\<close>. Its \<open>str\<close>,
  \<open>encode_error_str\<close>, names the first run of surrogates: the character and its
  position when the run is one character long, the positions of its ends otherwise. \<open>print_py\<close> is \<open>print\<close> for a text that may hold any
  character, as a question or the description of a failure may.
\<close>

definition surrogate :: "nat \<Rightarrow> bool" where
  "surrogate c = (55296 \<le> c \<and> c \<le> 57343)"

definition encodable :: "pystr \<Rightarrow> bool" where
  "encodable x = list_all (\<lambda>c. \<not> surrogate c) x"

definition hex_digit :: "nat \<Rightarrow> nat" where
  "hex_digit d = (if d < 10 then 48 + d else 87 + d)"

definition hex4 :: "nat \<Rightarrow> pystr" where
  "hex4 c = [hex_digit (c div 4096 mod 16), hex_digit (c div 256 mod 16),
            hex_digit (c div 16 mod 16), hex_digit (c mod 16)]"

definition encode_error_str :: "pystr \<Rightarrow> pystr" where
  "encode_error_str x =
     (let start = length (takeWhile (\<lambda>c. \<not> surrogate c) x);
          run = length (takeWhile surrogate (drop start x))
      in [39] @ lit ''utf-8'' @ [39] @ lit '' codec can'' @ [39] @ lit ''t encode '' @
         (if run = 1 then
            lit ''character '' @ [39, 92] @ lit ''u'' @ hex4 (hd (drop start x)) @ [39] @
            lit '' in position '' @ str_of_nat start
          else
            lit ''characters in position '' @ str_of_nat start @ lit ''-'' @
            str_of_nat (start + run - 1)) @
         lit '': surrogates not allowed'')"

definition print_py :: "pystr \<Rightarrow> 'w world \<Rightarrow> exc + 'w world" where
  "print_py x w =
     (if encodable x then Inr (print x w) else Inl (Exception (encode_error_str x)))"

datatype tool = PythonREPLTool

record PromptTemplate =
  input_variables :: "pystr list"
  template :: pystr

record ChatOpenAI =
  model :: pystr
  temperature :: int
  api_key :: pystr

text \<open>The value of \<open>create_react_agent(llm, tools, prompt)\<close>.\<close>

record react_agent =
  ra_llm :: ChatOpenAI
  ra_tools :: "tool list"
  ra_prompt :: PromptTemplate

record AgentExecutor =
  ex_agent :: react_agent
  ex_tools :: "tool list"
  verbose :: bool
  max_iterations :: nat
  handle_parsing_errors :: bool

text \<open>The dictionary \<open>inputs\<close> that \<open>chat\<close> builds, one field for each of its six keys.\<close>

record inputs =
  in_csv_file_path :: pystr
  in_tools :: pystr
  in_chat_history :: "(pystr \<times> pystr) list"
  in_tool_names :: pystr
  in_query :: pystr
  in_agent_scratchpad :: pystr

text \<open>
  \<open>AgentExecutor.invoke\<close> belongs to a library, so it is a parameter: from the state of
  the outside, the executor and the inputs it raises or returns a dictionary, and leaves a
  new state of the outside. It reads the inputs and does not change them. The constructors
  of the library (\<open>ChatOpenAI\<close>, \<open>PromptTemplate\<close>, \<open>create_react_agent\<close>,
  \<open>AgentExecutor\<close>, \<open>PythonREPLTool\<close>) build their values and are taken not to raise.
\<close>

type_synonym response = "pystr \<rightharpoonup> pystr"

type_synonym 'w engine = "'w \<Rightarrow> AgentExecutor \<Rightarrow> inputs \<Rightarrow> (exc + response) \<times> 'w"

text \<open>
  \<open>response[key]\<close>: a missing key raises \<open>KeyError(key)\<close>, whose \<open>str\<close> is the key
  between apostrophes (for a key without apostrophes or escapes, as \<open>output\<close> is).
\<close>

definition getitem :: "response \<Rightarrow> pystr \<Rightarrow> exc + pystr" where
  "getitem d k = (case d k of None \<Rightarrow> Inl (Exception ([39] @ k @ [39])) | Some v \<Rightarrow> Inr v)"

section \<open>agent.py: DataAnalysisAgent\<close>

record DataAnalysisAgent =
  llm :: ChatOpenAI
  csv_file_path :: pystr
  chat_history :: "(pystr \<times> pystr) list"
  python_tool :: tool
  tools :: "tool list"
  prompt_template :: PromptTemplate
  agent :: react_agent
  agent_executor :: AgentExecutor

definition nl :: pystr where
  "nl = [10]"

definition ind :: pystr where
  "ind = replicate 12 32"

text \<open>The template of lines 37 to 58, cut at the line that speaks of repetitions.\<close>

definition template_head :: pystr where
  "template_head =
     lit ''Here is a CSV file located at {csv_file_path}. Please answer the following questions as best you can. You have access to the following tools:'' @ nl
     @ nl
     @ ind @ lit ''{tools}'' @ nl
     @ nl
     @ ind @ lit ''Chat history from previous conversations:'' @ nl
     @ ind @ lit ''{chat_history}'' @ nl
     @ nl
     @ ind @ lit ''Use the following format:'' @ nl
     @ nl
     @ ind @ lit ''Question: the input question you must answer'' @ nl
     @ ind @ lit ''Thought: you should always think about what to do'' @ nl
     @ ind @ lit ''Action: the action to take, should be one of [{tool_names}]'' @ nl
     @ ind @ lit ''Action Input: the input to the action'' @ nl
     @ ind @ lit ''Observation: the result of the action'' @ nl
     @ ind"

definition template_repeat :: pystr where
  "template_repeat =
     lit ''... (this Thought/Action/Action Input/Observation can be repeated zero or 3 times)''"

definition template_tail :: pystr where
  "template_tail =
     nl
     @ ind @ lit ''Thought: I now know the final answer'' @ nl
     @ ind @ lit ''Final Answer: the final answer to the original input question'' @ nl
     @ nl
     @ ind @ lit ''Begin!'' @ nl
     @ nl
     @ ind @ lit ''Question: {query}'' @ nl
     @ ind @ lit ''{agent_scratchpad}''"

definition create_react_agent :: "ChatOpenAI \<Rightarrow> tool list \<Rightarrow> PromptTemplate \<Rightarrow> react_agent" where
  "create_react_agent l ts p = \<lparr>ra_llm = l, ra_tools = ts, ra_prompt = p\<rparr>"

definition init :: "ChatOpenAI \<Rightarrow> pystr \<Rightarrow> DataAnalysisAgent" where
  "init l path =
     (let the_tool = PythonREPLTool;
          the_tools = [the_tool];
          the_prompt = \<lparr>input_variables =
                          [lit ''tools'', lit ''chat_history'', lit ''tool_names'', lit ''query'',
                           lit ''agent_scratchpad''],
                        template = template_head @ template_repeat @ template_tail\<rparr>;
          the_agent = create_react_agent l the_tools the_prompt
      in \<lparr>llm = l, csv_file_path = path, chat_history = [], python_tool = the_tool,
          tools = the_tools, prompt_template = the_prompt, agent = the_agent,
          agent_executor =
            \<lparr>ex_agent = the_agent, ex_tools = the_tools, verbose = True, max_iterations = 10,
             handle_parsing_errors = True\<rparr>\<rparr>)"

definition get_tool_descriptions :: "DataAnalysisAgent \<Rightarrow> pystr" where
  "get_tool_descriptions self =
     lit ''Python_REPL: A Python shell. Use this to execute python commands. Input should be a valid python command. If you want to see the output of a value, you should print it out with ''
     @ [96] @ lit ''print(...)'' @ [96] @ lit ''.''"

definition build_inputs :: "DataAnalysisAgent \<Rightarrow> pystr \<Rightarrow> inputs" where
  "build_inputs self query =
     \<lparr>in_csv_file_path = csv_file_path self, in_tools = lit ''Python_REPL'',
      in_chat_history = chat_history self, in_tool_names = get_tool_descriptions self,
      in_query = query, in_agent_scratchpad = []\<rparr>"

text \<open>
  \<open>chat\<close>, lines 86 to 123. The first \<open>print\<close> is before the \<open>try\<close>: when it raises,
  the exception leaves \<open>chat\<close> and nothing else is done. In the \<open>try\<close>, the engine is
  invoked and \<open>response['output']\<close> is read before the append, so a failure of either
  reaches the handler with the history as it was. The handler is \<open>except Exception\<close>:
  any other exception leaves \<open>chat\<close> (\<open>Inl\<close>). In the handler the \<open>print\<close> comes
  before the append: when it raises, that exception leaves \<open>chat\<close> and no turn is
  appended.
\<close>

definition chat_except ::
  "pystr \<Rightarrow> exc \<Rightarrow> DataAnalysisAgent \<times> 'w world \<Rightarrow>
     (exc + pystr) \<times> DataAnalysisAgent \<times> 'w world" where
  "chat_except query e st =
     (let (self, w) = st
      in case e of
           Exception d \<Rightarrow>
             (let error_msg = lit ''Execution error: '' @ d
              in case print_py ([10, 10060] @ lit '' Error: '' @ error_msg) w of
                   Inl e' \<Rightarrow> (Inl e', self, w)
                 | Inr w' \<Rightarrow>
                     (Inr error_msg,
                      self\<lparr>chat_history := chat_history self @ [(query, error_msg)]\<rparr>, w'))
         | KeyboardInterrupt \<Rightarrow> (Inl KeyboardInterrupt, self, w)
         | SystemExit \<Rightarrow> (Inl SystemExit, self, w))"

definition chat ::
  "'w engine \<Rightarrow> pystr \<Rightarrow> DataAnalysisAgent \<times> 'w world \<Rightarrow>
     (exc + pystr) \<times> DataAnalysisAgent \<times> 'w world" where
  "chat eng query st =
     (let (self, w0) = st
      in case print_py ([10, 129302] @ lit '' User Question: '' @ query) w0 of
           Inl e \<Rightarrow> (Inl e, self, w0)
         | Inr w1 \<Rightarrow>
             (let (r, es) = eng (engine_state w1) (agent_executor self) (build_inputs self query);
                  w2 = w1\<lparr>engine_state := es\<rparr>
              in case (case r of Inl e \<Rightarrow> Inl e
                       | Inr response \<Rightarrow> getitem response (lit ''output'')) of
                   Inr output \<Rightarrow>
                     (Inr output,
                      self\<lparr>chat_history := chat_history self @ [(query, output)]\<rparr>, w2)
                 | Inl e \<Rightarrow> chat_except query e (self, w2)))"

definition clear_history :: "DataAnalysisAgent \<times> 'w world \<Rightarrow> DataAnalysisAgent \<times> 'w world" where
  "clear_history st =
     (let (self, w) = st
      in (self\<lparr>chat_history := []\<rparr>, print ([9989] @ lit '' Chat history cleared.'') w))"

definition get_history :: "DataAnalysisAgent \<Rightarrow> (pystr \<times> pystr) list" where
  "get_history self = chat_history self"

section \<open>main.py: the interactive shell\<close>

text \<open>
  What the program reads from outside: the environment after \<open>load_dotenv()\<close> and which
  paths exist.
\<close>

record env =
  environ :: "pystr \<rightharpoonup> pystr"
  path_exists :: "pystr \<Rightarrow> bool"

text \<open>\<open>load_environment\<close>: \<open>not api_key\<close> holds for \<open>None\<close> and for the empty string.\<close>

definition load_environment :: "env \<Rightarrow> exc + pystr" where
  "load_environment e =
     (case environ e (lit ''OPENAI_API_KEY'') of
        None \<Rightarrow>
          Inl (Exception (lit ''OPENAI_API_KEY not found in environment variables. Please check your .env file.''))
      | Some k \<Rightarrow>
          if k = [] then
            Inl (Exception (lit ''OPENAI_API_KEY not found in environment variables. Please check your .env file.''))
          else Inr k)"

definition initialize_llm :: "pystr \<Rightarrow> ChatOpenAI" where
  "initialize_llm k = \<lparr>model = lit ''gpt-4o'', temperature = 0, api_key = k\<rparr>"

definition print_welcome_message :: "'w world \<Rightarrow> 'w world" where
  "print_welcome_message w =
     (let w1 = print ([128674] @ lit '' Data Analysis Agent Started!'') w;
          w2 = print (replicate 50 61) w1;
          w3 = print (lit ''You can ask questions in natural language, such as:'') w2;
          w4 = print (lit ''- '' @ [39] @ lit ''Show me basic statistics of the data'' @ [39]) w3;
          w5 = print (lit ''- '' @ [39] @ lit ''Create a survival rate distribution chart'' @ [39]) w4;
          w6 = print (lit ''- '' @ [39] @ lit ''Predict survival rate using age and tell me the accuracy'' @ [39]) w5;
          w7 = print (lit ''- '' @ [39] @ lit ''What are the correlations between different features?'' @ [39]) w6;
          w8 = print (lit ''- '' @ [39] @ lit ''Show me the distribution of passenger classes'' @ [39]) w7
      in print (replicate 50 61) w8)"

text \<open>
  One reading of \<open>input(prompt)\<close>: the prompt is written without a newline, then a line
  comes back or an exception is raised (\<open>KeyboardInterrupt\<close> on an interrupt,
  \<open>EOFError\<close>, an \<open>Exception\<close>, at the end of the input).
\<close>

datatype event = Line pystr | InputRaises exc

definition input_prompt :: pystr where
  "input_prompt =
     [10, 128172] @ lit '' Enter your question (type '' @ [39] @ lit ''quit'' @ [39]
     @ lit '' to exit): ''"

definition input_py :: "event \<Rightarrow> 'w world \<Rightarrow> (exc + pystr) \<times> 'w world" where
  "input_py ev w =
     (let w1 = w\<lparr>stdout := stdout w @ [input_prompt]\<rparr>
      in case ev of Line l \<Rightarrow> (Inr l, w1) | InputRaises e \<Rightarrow> (Inl e, w1))"

text \<open>Lines 102 to 104: \<open>for i, (q, a) in enumerate(history, 1)\<close>, from the index \<open>i\<close> on.\<close>

fun show_turns :: "nat \<Rightarrow> (pystr \<times> pystr) list \<Rightarrow> 'w world \<Rightarrow> 'w world" where
  "show_turns i [] w = w"
| "show_turns i ((q, a) # rest) w =
     (let w1 = print (str_of_nat i @ lit ''. Q: '' @ q) w;
          w2 = print (if 100 < length a then lit ''   A: '' @ take 100 a @ lit ''...''
                      else lit ''   A: '' @ a) w1
      in show_turns (Suc i) rest w2)"

definition show_history :: "DataAnalysisAgent \<times> 'w world \<Rightarrow> DataAnalysisAgent \<times> 'w world" where
  "show_history st =
     (let (self, w) = st;
          history = get_history self
      in if history \<noteq> [] then
           (self, show_turns 1 history (print ([10, 128221] @ lit '' Chat History:'') w))
         else (self, print (lit ''No chat history yet.'') w))"

text \<open>How one pass through the body of \<open>while True\<close> ends.\<close>

datatype control = Continue | Break | Propagate exc

text \<open>The two handlers of the loop, lines 117 to 122; nothing else is caught there.\<close>

definition loop_handlers ::
  "exc \<Rightarrow> DataAnalysisAgent \<times> 'w world \<Rightarrow> control \<times> DataAnalysisAgent \<times> 'w world" where
  "loop_handlers e st =
     (let (self, w) = st
      in case e of
           KeyboardInterrupt \<Rightarrow> (Break, self, print ([10, 128075] @ lit '' Goodbye!'') w)
         | Exception d \<Rightarrow>
             (Continue, self,
              print (lit ''Please try again or restart the application.'')
                (print ([10, 10060] @ lit '' Unexpected error: '' @ d) w))
         | SystemExit \<Rightarrow> (Propagate SystemExit, self, w))"

text \<open>Lines 113 to 115: the line is a question.\<close>

definition ask ::
  "'w engine \<Rightarrow> pystr \<Rightarrow> DataAnalysisAgent \<times> 'w world \<Rightarrow> control \<times> DataAnalysisAgent \<times> 'w world" where
  "ask eng user_input st =
     (case chat eng user_input st of
        (Inr response, self, w) \<Rightarrow>
          (Continue, self, print ([10, 128202] @ lit '' Agent Response:'' @ [10] @ response) w)
      | (Inl e, st') \<Rightarrow> loop_handlers e st')"

text \<open>The body of the loop, lines 87 to 122, for what \<open>input\<close> does this time.\<close>

definition step ::
  "'w engine \<Rightarrow> event \<Rightarrow> DataAnalysisAgent \<times> 'w world \<Rightarrow> control \<times> DataAnalysisAgent \<times> 'w world" where
  "step eng ev st =
     (let (self, w) = st
      in case input_py ev w of
           (Inl e, w1) \<Rightarrow> loop_handlers e (self, w1)
         | (Inr user_input, w1) \<Rightarrow>
             if lower user_input \<in> set [lit ''quit'', lit ''exit'', lit ''q''] then
               (Break, self, print ([128075] @ lit '' Goodbye!'') w1)
             else if lower user_input \<in> set [lit ''clear'', lit ''clear history''] then
               (case clear_history (self, w1) of (self', w2) \<Rightarrow> (Continue, self', w2))
             else if lower user_input \<in> set [lit ''history'', lit ''show history''] then
               (case show_history (self, w1) of (self', w2) \<Rightarrow> (Continue, self', w2))
             else if strip user_input = [] then
               (Continue, self, print (lit ''Please enter a valid question.'') w1)
             else ask eng user_input (self, w1))"

text \<open>
  How a run over the events read so far stands: \<open>Returned\<close> normally, \<open>Raised\<close> an
  exception to the caller, or \<open>Waiting\<close> in \<open>input\<close> for the next line.
\<close>

datatype outcome = Returned | Raised exc | Waiting

fun main_loop ::
  "'w engine \<Rightarrow> event list \<Rightarrow> DataAnalysisAgent \<times> 'w world \<Rightarrow> outcome \<times> DataAnalysisAgent \<times> 'w world" where
  "main_loop eng [] st = (Waiting, st)"
| "main_loop eng (ev # evs) st =
     (case step eng ev st of
        (Continue, st') \<Rightarrow> main_loop eng evs st'
      | (Break, st') \<Rightarrow> (Returned, st')
      | (Propagate e, st') \<Rightarrow> (Raised e, st'))"

text \<open>The handler of \<open>main\<close>, lines 124 to 126.\<close>

definition main_handler :: "exc \<Rightarrow> 'w world \<Rightarrow> outcome \<times> 'w world" where
  "main_handler e w =
     (case e of
        Exception d \<Rightarrow>
          (Returned,
           print (lit ''Please check your configuration and try again.'')
             (print ([10060] @ lit '' Failed to initialize: '' @ d) w))
      | KeyboardInterrupt \<Rightarrow> (Raised KeyboardInterrupt, w)
      | SystemExit \<Rightarrow> (Raised SystemExit, w))"

definition main :: "env \<Rightarrow> 'w engine \<Rightarrow> event list \<Rightarrow> 'w world \<Rightarrow> outcome \<times> 'w world" where
  "main e eng evs w =
     (case load_environment e of
        Inl x \<Rightarrow> main_handler x w
      | Inr k \<Rightarrow>
          (let the_llm = initialize_llm k;
               path = lit ''data.csv''
           in if \<not> path_exists e path then
                (Returned,
                 print (lit ''Please ensure your data file exists and update the path in main.py'')
                   (print ([10060] @ lit '' Error: CSV file '' @ [39] @ path @ [39] @ lit '' not found.'') w))
              else
                (case main_loop eng evs (init the_llm path, print_welcome_message w) of
                   (Raised x, self, w') \<Rightarrow> main_handler x w'
                 | (out, self, w') \<Rightarrow> (out, w'))))"

text \<open>
  The script, lines 129 and 130: it calls \<open>main()\<close> and nothing follows, and no line of
  the program sets an exit status. A script that runs to its end exits with status 0.
\<close>

datatype process_end = Exit nat | Uncaught exc | Running

definition script :: "env \<Rightarrow> 'w engine \<Rightarrow> event list \<Rightarrow> 'w world \<Rightarrow> process_end \<times> 'w world" where
  "script e eng evs w =
     (case main e eng evs w of
        (Returned, w') \<Rightarrow> (Exit 0, w')
      | (Raised x, w') \<Rightarrow> (Uncaught x, w')
      | (Waiting, w') \<Rightarrow> (Running, w'))"

section \<open>The reasoning engine of the library\<close>

text \<open>
  Modelled from the spec: the reasoning engine behind \<open>AgentExecutor.invoke\<close>, which
  belongs to the library and is not under src/. The spec (4.2) has the request delegated
  to an engine "bounded to at most a fixed number of reasoning/act/observe cycles
  (policy: 10) before the engine is forced to stop and must produce a best-effort final
  answer"; its glossary has the engine decide "whether to invoke the code-execution tool"
  and produce "a final natural-language answer". So in a cycle the reasoning, which is
  given the agent of the executor (language model, tools and prompt), the inputs and the
  actions and observations so far, decides on a final answer or on an action; the tool
  acts; the observation is kept. What the language model and the tool do, and the
  best-effort answer, are parameters.
\<close>

datatype decision = FinalAnswer pystr | Action pystr

record 'w reasoner =
  reason :: "'w \<Rightarrow> react_agent \<Rightarrow> inputs \<Rightarrow> (pystr \<times> pystr) list \<Rightarrow> (exc + decision) \<times> 'w"
  act :: "'w \<Rightarrow> pystr \<Rightarrow> (exc + pystr) \<times> 'w"
  best_effort :: "inputs \<Rightarrow> (pystr \<times> pystr) list \<Rightarrow> pystr"

text \<open>
  Modelled from the spec: the cycles of the engine, with the number of cycles it may still
  make. It returns what it ends with, the actions and observations of the cycles made,
  and the state of the outside. With no cycle left it is forced to stop with the
  best-effort answer.
\<close>

fun cycles ::
  "nat \<Rightarrow> 'w reasoner \<Rightarrow> react_agent \<Rightarrow> inputs \<Rightarrow> (pystr \<times> pystr) list \<Rightarrow> 'w \<Rightarrow>
     (exc + pystr) \<times> (pystr \<times> pystr) list \<times> 'w" where
  "cycles 0 R ag i pad s = (Inr (best_effort R i pad), pad, s)"
| "cycles (Suc n) R ag i pad s =
     (case reason R s ag i pad of
        (Inl e, s1) \<Rightarrow> (Inl e, pad, s1)
      | (Inr (FinalAnswer t), s1) \<Rightarrow> (Inr t, pad, s1)
      | (Inr (Action x), s1) \<Rightarrow>
          (case act R s1 x of
             (Inl e, s2) \<Rightarrow> (Inl e, pad, s2)
           | (Inr obs, s2) \<Rightarrow> cycles n R ag i (pad @ [(x, obs)]) s2))"

text \<open>
  Modelled from the spec: \<open>AgentExecutor.invoke\<close> as an engine. The number of cycles is
  the \<open>max_iterations\<close> of the executor it is invoked on; the answer comes back under
  the key \<open>output\<close>.
\<close>

definition invoke :: "'w reasoner \<Rightarrow> 'w engine" where
  "invoke R s ex i =
     (case cycles (max_iterations ex) R (ex_agent ex) i [] s of
        (Inl e, pad, s') \<Rightarrow> (Inl e, s')
      | (Inr t, pad, s') \<Rightarrow> (Inr [lit ''output'' \<mapsto> t], s'))"

section \<open>Sequences of calls, and example runs\<close>

text \<open>
  A caller that makes one call of \<open>chat\<close> for each question of a list, in order, and keeps
  what each call returns; a call that raises ends the sequence, as an exception would.
\<close>

fun chats ::
  "'w engine \<Rightarrow> pystr list \<Rightarrow> DataAnalysisAgent \<times> 'w world \<Rightarrow>
     (exc + pystr) list \<times> DataAnalysisAgent \<times> 'w world" where
  "chats eng [] st = ([], st)"
| "chats eng (q # qs) st =
     (case chat eng q st of
        (Inr x, st') \<Rightarrow> (case chats eng qs st' of (rs, st'') \<Rightarrow> (Inr x # rs, st''))
      | (Inl e, st') \<Rightarrow> ([Inl e], st'))"

text \<open>
  A call is successful when its question can be written to the console and the engine
  returns a response that has the key \<open>output\<close>; a sequence of calls is, when each call
  is in the state the calls before it left.
\<close>

definition succeeds :: "'w engine \<Rightarrow> pystr \<Rightarrow> DataAnalysisAgent \<times> 'w world \<Rightarrow> bool" where
  "succeeds eng q st =
     (encodable q \<and>
      (case fst (eng (engine_state (snd st)) (agent_executor (fst st)) (build_inputs (fst st) q)) of
         Inl e \<Rightarrow> False
       | Inr resp \<Rightarrow> resp (lit ''output'') \<noteq> None))"

fun all_succeed :: "'w engine \<Rightarrow> pystr list \<Rightarrow> DataAnalysisAgent \<times> 'w world \<Rightarrow> bool" where
  "all_succeed eng [] st = True"
| "all_succeed eng (q # qs) st = (succeeds eng q st \<and> all_succeed eng qs (snd (chat eng q st)))"

text \<open>
  A line that is empty or holds only whitespace; an engine that also counts its invocations
  (\<open>chat\<close> invokes the engine once in each call, so the count is the number of calls of
  \<open>chat\<close>); and what a run leaves apart from the text on the console.
\<close>

definition blank_line :: "event \<Rightarrow> bool" where
  "blank_line ev = (case ev of Line l \<Rightarrow> list_all isspace l | InputRaises e \<Rightarrow> False)"

definition counting :: "'w engine \<Rightarrow> (nat \<times> 'w) engine" where
  "counting eng s ex i = (case eng (snd s) ex i of (r, s') \<Rightarrow> (r, Suc (fst s), s'))"

definition core :: "'c \<times> DataAnalysisAgent \<times> 'w world \<Rightarrow> 'c \<times> DataAnalysisAgent \<times> 'w" where
  "core r = (fst r, fst (snd r), engine_state (snd (snd r)))"

text \<open>An engine that is given the executor with \<open>max_iterations\<close> set to \<open>n\<close>.\<close>

definition with_max_iterations :: "nat \<Rightarrow> 'w engine \<Rightarrow> 'w engine" where
  "with_max_iterations n eng s ex i = eng s (ex\<lparr>max_iterations := n\<rparr>) i"

text \<open>Engines for the examples; their state counts the invocations.\<close>

definition answering_engine :: "nat engine" where
  "answering_engine n ex i = (Inr [lit ''output'' \<mapsto> lit ''re: '' @ in_query i], Suc n)"

definition failing_engine :: "nat engine" where
  "failing_engine n ex i = (Inl (Exception (lit ''rate limit exceeded'')), Suc n)"

definition garbled_engine :: "nat engine" where
  "garbled_engine n ex i = (Inl (Exception [55296]), Suc n)"

definition exiting_engine :: "nat engine" where
  "exiting_engine n ex i = (Inl SystemExit, Suc n)"

definition malformed_engine :: "nat engine" where
  "malformed_engine n ex i = (Inr Map.empty, Suc n)"

definition interrupted_engine :: "nat engine" where
  "interrupted_engine n ex i = (Inl KeyboardInterrupt, Suc n)"

text \<open>A reasoner that never comes to a final answer; its state counts the runs of the tool.\<close>

definition looping_reasoner :: "nat reasoner" where
  "looping_reasoner =
     \<lparr>reason = (\<lambda>s ag i pad. (Inr (Action (lit ''print(1)'')), s)),
      act = (\<lambda>s x. (Inr (lit ''1''), Suc s)),
      best_effort = (\<lambda>i pad. lit ''Agent stopped due to iteration limit or time limit.'')\<rparr>"

definition example_agent :: DataAnalysisAgent where
  "example_agent = init (initialize_llm (lit ''sk-test'')) (lit ''data.csv'')"

definition example_world :: "nat world" where
  "example_world = \<lparr>stdout = [], engine_state = 0\<rparr>"

definition counted_world :: "(nat \<times> nat) world" where
  "counted_world = \<lparr>stdout = [], engine_state = (0, 0)\<rparr>"

definition example_env :: env where
  "example_env = \<lparr>environ = [lit ''OPENAI_API_KEY'' \<mapsto> lit ''sk-test''],
                   path_exists = (\<lambda>p. p = lit ''data.csv'')\<rparr>"

definition no_key_env :: env where
  "no_key_env = \<lparr>environ = Map.empty, path_exists = (\<lambda>p. p = lit ''data.csv'')\<rparr>"

definition no_file_env :: env where
  "no_file_env = \<lparr>environ = [lit ''OPENAI_API_KEY'' \<mapsto> lit ''sk-test''],
                   path_exists = (\<lambda>p. False)\<rparr>"

section \<open>The orchestrator: \<open>chat\<close> and \<open>clear_history\<close>\<close>

lemma of_char_less_256: "(of_char c :: nat) < 256"
proof -
  have "(of_char c :: nat) mod 256 < 256" by simp
  then show ?thesis by (simp only: of_char_mod_256)
qed

lemma encodable_lit [simp]: "encodable (lit s)"
proof -
  have "\<not> surrogate (of_char c)" for c
    unfolding surrogate_def using of_char_less_256 [of c] by linarith
  then show ?thesis by (simp add: encodable_def lit_def list_all_iff)
qed

lemma encodable_append [simp]: "encodable (x @ y) \<longleftrightarrow> encodable x \<and> encodable y"
  by (simp add: encodable_def)

lemma encodable_Cons [simp]: "encodable (c # x) \<longleftrightarrow> \<not> surrogate c \<and> encodable x"
  by (simp add: encodable_def)

lemma encodable_Nil [simp]: "encodable []"
  by (simp add: encodable_def)

lemma not_surrogate_small [simp]:
  "\<not> surrogate 10" "\<not> surrogate 39" "\<not> surrogate 10060" "\<not> surrogate 129302"
  by (simp_all add: surrogate_def)

lemma chat_cases:
  "chat eng q (a, w) =
     (if \<not> encodable q then
        (Inl (Exception (encode_error_str ([10, 129302] @ lit '' User Question: '' @ q))), a, w)
      else
        (let w1 = print ([10, 129302] @ lit '' User Question: '' @ q) w;
             r = eng (engine_state w) (agent_executor a) (build_inputs a q);
             w2 = w1\<lparr>engine_state := snd r\<rparr>
         in case fst r of
              Inl (Exception d) \<Rightarrow>
                if encodable d then
                  (Inr (lit ''Execution error: '' @ d),
                   a\<lparr>chat_history := chat_history a @ [(q, lit ''Execution error: '' @ d)]\<rparr>,
                   print ([10, 10060] @ lit '' Error: '' @ lit ''Execution error: '' @ d) w2)
                else
                  (Inl (Exception (encode_error_str
                          ([10, 10060] @ lit '' Error: '' @ lit ''Execution error: '' @ d))),
                   a, w2)
            | Inl e \<Rightarrow> (Inl e, a, w2)
            | Inr resp \<Rightarrow>
                (case resp (lit ''output'') of
                   Some out \<Rightarrow> (Inr out, a\<lparr>chat_history := chat_history a @ [(q, out)]\<rparr>, w2)
                 | None \<Rightarrow>
                    (Inr (lit ''Execution error: '' @ [39] @ lit ''output'' @ [39]),
                     a\<lparr>chat_history := chat_history a @
                          [(q, lit ''Execution error: '' @ [39] @ lit ''output'' @ [39])]\<rparr>,
                     print ([10, 10060] @ lit '' Error: '' @ lit ''Execution error: '' @ [39]
                            @ lit ''output'' @ [39]) w2))))"
  by (simp add: chat_def chat_except_def print_py_def getitem_def print_def Let_def
           split: prod.splits sum.splits exc.splits option.splits)

lemma example_agent_history: "chat_history example_agent = []"
  by (simp add: example_agent_def init_def Let_def)

text \<open>
  C1, as the code has it, for a question that the console can encode. A failure that is
  an instance of \<open>Exception\<close>, raised in the \<open>try\<close> with a description that the console
  can encode, makes \<open>chat\<close> return the text \<open>Execution error: \<close> followed by the
  description, and leaves the history longer by the one turn of the question and that
  text; so does a response without the key \<open>output\<close>, whose description is that of the
  \<open>KeyError\<close>. A failure outside \<open>Exception\<close>, \<open>KeyboardInterrupt\<close> or
  \<open>SystemExit\<close>, leaves \<open>chat\<close> as it was raised, with the history as it was. Nothing
  else leaves \<open>chat\<close>: an exception that does is such a failure of the engine, or the
  engine raised an \<open>Exception\<close> whose description the console cannot encode; and
  whenever an exception leaves \<open>chat\<close> the history is as it was.
\<close>

theorem chat_exception_recorded:
  "encodable q \<longrightarrow>
     (fst (eng (engine_state w) (agent_executor a) (build_inputs a q)) = Inl (Exception d) \<and>
      encodable d \<longrightarrow>
        fst (chat eng q (a, w)) = Inr (lit ''Execution error: '' @ d) \<and>
        chat_history (fst (snd (chat eng q (a, w)))) =
          chat_history a @ [(q, lit ''Execution error: '' @ d)])
     \<and> (fst (eng (engine_state w) (agent_executor a) (build_inputs a q)) = Inr resp \<and>
        resp (lit ''output'') = None \<longrightarrow>
        fst (chat eng q (a, w)) = Inr (lit ''Execution error: '' @ [39] @ lit ''output'' @ [39]) \<and>
        chat_history (fst (snd (chat eng q (a, w)))) =
          chat_history a @ [(q, lit ''Execution error: '' @ [39] @ lit ''output'' @ [39])])
     \<and> (fst (eng (engine_state w) (agent_executor a) (build_inputs a q)) = Inl KeyboardInterrupt \<longrightarrow>
        fst (chat eng q (a, w)) = Inl KeyboardInterrupt \<and>
        chat_history (fst (snd (chat eng q (a, w)))) = chat_history a)
     \<and> (fst (eng (engine_state w) (agent_executor a) (build_inputs a q)) = Inl SystemExit \<longrightarrow>
        fst (chat eng q (a, w)) = Inl SystemExit \<and>
        chat_history (fst (snd (chat eng q (a, w)))) = chat_history a)
     \<and> (fst (chat eng q (a, w)) = Inl e \<longrightarrow>
        chat_history (fst (snd (chat eng q (a, w)))) = chat_history a \<and>
        ((fst (eng (engine_state w) (agent_executor a) (build_inputs a q)) = Inl e \<and>
          (e = KeyboardInterrupt \<or> e = SystemExit)) \<or>
         (\<exists>d'. fst (eng (engine_state w) (agent_executor a) (build_inputs a q)) = Inl (Exception d') \<and>
               \<not> encodable d')))"
  by (auto simp: chat_cases Let_def split: sum.splits exc.splits option.splits if_splits)

theorem chat_exception_recorded_witness:
  "encodable (lit ''how many rows?'') \<and>
   fst (failing_engine (engine_state example_world) (agent_executor example_agent)
          (build_inputs example_agent (lit ''how many rows?'')))
     = Inl (Exception (lit ''rate limit exceeded'')) \<and>
   encodable (lit ''rate limit exceeded'') \<and>
   fst (chat failing_engine (lit ''how many rows?'') (example_agent, example_world))
     = Inr (lit ''Execution error: rate limit exceeded'') \<and>
   chat_history (fst (snd (chat failing_engine (lit ''how many rows?'')
       (example_agent, example_world))))
     = [(lit ''how many rows?'', lit ''Execution error: rate limit exceeded'')] \<and>
   fst (malformed_engine (engine_state example_world) (agent_executor example_agent)
          (build_inputs example_agent (lit ''how many rows?'')))
     = Inr Map.empty \<and>
   Map.empty (lit ''output'') = (None :: pystr option) \<and>
   chat_history (fst (snd (chat malformed_engine (lit ''how many rows?'')
       (example_agent, example_world))))
     = [(lit ''how many rows?'', lit ''Execution error: '' @ [39] @ lit ''output'' @ [39])] \<and>
   fst (interrupted_engine (engine_state example_world) (agent_executor example_agent)
          (build_inputs example_agent (lit ''how many rows?'')))
     = Inl KeyboardInterrupt \<and>
   fst (chat interrupted_engine (lit ''how many rows?'') (example_agent, example_world))
     = Inl KeyboardInterrupt \<and>
   fst (exiting_engine (engine_state example_world) (agent_executor example_agent)
          (build_inputs example_agent (lit ''how many rows?'')))
     = Inl SystemExit \<and>
   fst (chat exiting_engine (lit ''how many rows?'') (example_agent, example_world))
     = Inl SystemExit \<and>
   chat_history (fst (snd (chat exiting_engine (lit ''how many rows?'')
       (example_agent, example_world)))) = []"
  using chat_exception_recorded [where eng = failing_engine and w = example_world
      and a = example_agent and q = "lit ''how many rows?''" and d = "lit ''rate limit exceeded''"]
    chat_exception_recorded [where eng = malformed_engine and w = example_world
      and a = example_agent and q = "lit ''how many rows?''" and resp = Map.empty]
    chat_exception_recorded [where eng = interrupted_engine and w = example_world
      and a = example_agent and q = "lit ''how many rows?''" and e = KeyboardInterrupt]
    chat_exception_recorded [where eng = exiting_engine and w = example_world
      and a = example_agent and q = "lit ''how many rows?''" and e = SystemExit]
  by (simp add: failing_engine_def malformed_engine_def interrupted_engine_def
        exiting_engine_def example_agent_history lit_def surrogate_def)

text \<open>
  C1 as it is stated fails in two ways. When the engine raises \<open>KeyboardInterrupt\<close>
  the call returns no text: the interrupt reaches the caller, and no turn is appended.
  And for the question that is the one character \<open>U+D800\<close> the \<open>print\<close> before the
  \<open>try\<close> raises \<open>UnicodeEncodeError\<close>, which leaves \<open>chat\<close> with no turn appended
  and the engine not invoked; for a failure whose description is that character the
  \<open>print\<close> of the handler raises it, again with no turn appended.
\<close>

theorem chat_interrupt_counterexample:
  "fst (chat interrupted_engine (lit ''show me basic statistics'') (example_agent, example_world))
     = Inl KeyboardInterrupt
   \<and> chat_history (fst (snd (chat interrupted_engine (lit ''show me basic statistics'')
        (example_agent, example_world)))) = chat_history example_agent
   \<and> fst (chat answering_engine [55296] (example_agent, example_world))
     = Inl (Exception ([39] @ lit ''utf-8'' @ [39] @ lit '' codec can'' @ [39] @ lit ''t encode character ''
            @ [39, 92] @ lit ''ud800'' @ [39] @ lit '' in position 18: surrogates not allowed''))
   \<and> chat_history (fst (snd (chat answering_engine [55296] (example_agent, example_world))))
     = chat_history example_agent
   \<and> engine_state (snd (snd (chat answering_engine [55296] (example_agent, example_world))))
     = engine_state example_world
   \<and> fst (chat garbled_engine (lit ''show me basic statistics'') (example_agent, example_world))
     = Inl (Exception ([39] @ lit ''utf-8'' @ [39] @ lit '' codec can'' @ [39] @ lit ''t encode character ''
            @ [39, 92] @ lit ''ud800'' @ [39] @ lit '' in position 27: surrogates not allowed''))
   \<and> chat_history (fst (snd (chat garbled_engine (lit ''show me basic statistics'')
        (example_agent, example_world)))) = chat_history example_agent"
  by (simp add: chat_cases interrupted_engine_def garbled_engine_def Let_def
        encode_error_str_def surrogate_def hex4_def hex_digit_def str_of_nat.simps lit_def)

lemma chat_success:
  assumes "succeeds eng q (a, w)"
  shows "\<exists>resp ans w'. fst (eng (engine_state w) (agent_executor a) (build_inputs a q)) = Inr resp \<and>
           resp (lit ''output'') = Some ans \<and>
           chat eng q (a, w) = (Inr ans, a\<lparr>chat_history := chat_history a @ [(q, ans)]\<rparr>, w')"
  using assms
  by (auto simp: succeeds_def chat_cases Let_def split: sum.splits option.splits)

lemma chats_history:
  "all_succeed eng qs (a, w) \<Longrightarrow>
   \<exists>answers a' w'. chats eng qs (a, w) = (map Inr answers, a', w') \<and> length answers = length qs \<and>
      chat_history a' = chat_history a @ zip qs answers"
proof (induction qs arbitrary: a w)
  case Nil
  then show ?case by simp
next
  case (Cons q qs)
  from Cons.prems have s: "succeeds eng q (a, w)" by simp
  from chat_success [OF s] obtain ans w1 where
    c: "chat eng q (a, w) = (Inr ans, a\<lparr>chat_history := chat_history a @ [(q, ans)]\<rparr>, w1)"
    by blast
  from Cons.prems c have "all_succeed eng qs (a\<lparr>chat_history := chat_history a @ [(q, ans)]\<rparr>, w1)"
    by simp
  from Cons.IH [OF this] obtain answers a' w' where
    r: "chats eng qs (a\<lparr>chat_history := chat_history a @ [(q, ans)]\<rparr>, w1) = (map Inr answers, a', w')"
       "length answers = length qs"
       "chat_history a' = (chat_history a @ [(q, ans)]) @ zip qs answers"
    by auto
  have "chats eng (q # qs) (a, w) = (map Inr (ans # answers), a', w')"
    using c r(1) by simp
  moreover have "length (ans # answers) = length (q # qs)" using r(2) by simp
  moreover have "chat_history a' = chat_history a @ zip (q # qs) (ans # answers)"
    using r(3) by simp
  ultimately show ?case by blast
qed

text \<open>
  C2. A successful call returns the text under \<open>output\<close> of the engine's response and
  appends the one turn of the question and that text. After a sequence of successful calls
  the history is the history before followed by the turns of the calls in the order of the
  calls; from an empty history its length is the number of calls.
\<close>

theorem successful_calls_history:
  "(succeeds eng q (a, w) \<longrightarrow>
      (\<exists>resp ans. fst (eng (engine_state w) (agent_executor a) (build_inputs a q)) = Inr resp \<and>
         resp (lit ''output'') = Some ans \<and>
         fst (chat eng q (a, w)) = Inr ans \<and>
         chat_history (fst (snd (chat eng q (a, w)))) = chat_history a @ [(q, ans)]))
   \<and> (all_succeed eng qs (a, w) \<longrightarrow>
      (\<exists>answers. fst (chats eng qs (a, w)) = map Inr answers \<and> length answers = length qs \<and>
         chat_history (fst (snd (chats eng qs (a, w)))) = chat_history a @ zip qs answers \<and>
         length (chat_history (fst (snd (chats eng qs (a, w))))) = length (chat_history a) + length qs \<and>
         (chat_history a = [] \<longrightarrow>
            length (chat_history (fst (snd (chats eng qs (a, w))))) = length qs \<and>
            map fst (chat_history (fst (snd (chats eng qs (a, w))))) = qs)))"
proof (intro conjI impI)
  assume "succeeds eng q (a, w)"
  from chat_success [OF this]
  show "\<exists>resp ans. fst (eng (engine_state w) (agent_executor a) (build_inputs a q)) = Inr resp \<and>
         resp (lit ''output'') = Some ans \<and>
         fst (chat eng q (a, w)) = Inr ans \<and>
         chat_history (fst (snd (chat eng q (a, w)))) = chat_history a @ [(q, ans)]"
    by fastforce
next
  assume "all_succeed eng qs (a, w)"
  from chats_history [OF this] obtain answers a' w' where
    r: "chats eng qs (a, w) = (map Inr answers, a', w')" "length answers = length qs"
       "chat_history a' = chat_history a @ zip qs answers"
    by blast
  have "fst (chats eng qs (a, w)) = map Inr answers \<and> length answers = length qs \<and>
         chat_history (fst (snd (chats eng qs (a, w)))) = chat_history a @ zip qs answers \<and>
         length (chat_history (fst (snd (chats eng qs (a, w))))) = length (chat_history a) + length qs \<and>
         (chat_history a = [] \<longrightarrow>
            length (chat_history (fst (snd (chats eng qs (a, w))))) = length qs \<and>
            map fst (chat_history (fst (snd (chats eng qs (a, w))))) = qs)"
    using r by simp
  then show "\<exists>answers. fst (chats eng qs (a, w)) = map Inr answers \<and> length answers = length qs \<and>
         chat_history (fst (snd (chats eng qs (a, w)))) = chat_history a @ zip qs answers \<and>
         length (chat_history (fst (snd (chats eng qs (a, w))))) = length (chat_history a) + length qs \<and>
         (chat_history a = [] \<longrightarrow>
            length (chat_history (fst (snd (chats eng qs (a, w))))) = length qs \<and>
            map fst (chat_history (fst (snd (chats eng qs (a, w))))) = qs)"
    by blast
qed

theorem successful_calls_history_witness:
  "succeeds answering_engine (lit ''mean age?'') (example_agent, example_world) \<and>
   all_succeed answering_engine [lit ''mean age?'', lit ''rows?''] (example_agent, example_world) \<and>
   chat_history example_agent = [] \<and>
   fst (chat answering_engine (lit ''mean age?'') (example_agent, example_world))
     = Inr (lit ''re: mean age?'') \<and>
   fst (chats answering_engine [lit ''mean age?'', lit ''rows?''] (example_agent, example_world))
     = [Inr (lit ''re: mean age?''), Inr (lit ''re: rows?'')] \<and>
   chat_history (fst (snd (chats answering_engine [lit ''mean age?'', lit ''rows?'']
       (example_agent, example_world))))
     = [(lit ''mean age?'', lit ''re: mean age?''), (lit ''rows?'', lit ''re: rows?'')]"
  using successful_calls_history [of answering_engine "lit ''mean age?''" example_agent
      example_world "[lit ''mean age?'', lit ''rows?'']"]
  by (simp add: succeeds_def answering_engine_def example_agent_history build_inputs_def
        chat_cases Let_def lit_def surrogate_def)

text \<open>
  C3. Whatever the history holds, after \<open>clear_history\<close> it is empty and its length is 0;
  the rest of the agent is as it was. The lines \<open>clear\<close> and \<open>clear history\<close> of the
  shell do that.
\<close>

theorem clear_history_empty:
  "get_history (fst (clear_history (a, w))) = []
   \<and> length (get_history (fst (clear_history (a, w)))) = 0
   \<and> fst (clear_history (a, w)) = a\<lparr>chat_history := []\<rparr>
   \<and> fst (snd (step eng (Line (lit ''clear'')) (a, w))) = a\<lparr>chat_history := []\<rparr>
   \<and> fst (snd (step eng (Line (lit ''clear history'')) (a, w))) = a\<lparr>chat_history := []\<rparr>"
  by (simp add: clear_history_def get_history_def step_def input_py_def lower_def lower_cp_def
        lit_def)

text \<open>
  C9. The engine is invoked once, with the history as it was before the call (and not at
  all when the question cannot be written to the console, which ends the call before the
  \<open>try\<close>). When the call is over the agent differs from the agent before in its history only, and the
  history is the old one with the one turn of the call appended (with nothing appended
  when an exception leaves the call). Dataset path, tools, prompt template and executor
  are those of before.
\<close>

theorem chat_atomic:
  "in_chat_history (build_inputs a q) = chat_history a
   \<and> engine_state (snd (snd (chat eng q (a, w)))) =
       (if encodable q then snd (eng (engine_state w) (agent_executor a) (build_inputs a q))
        else engine_state w)
   \<and> fst (snd (chat eng q (a, w))) =
       a\<lparr>chat_history := chat_history a @
            (case fst (chat eng q (a, w)) of Inr x \<Rightarrow> [(q, x)] | Inl e \<Rightarrow> [])\<rparr>
   \<and> csv_file_path (fst (snd (chat eng q (a, w)))) = csv_file_path a
   \<and> tools (fst (snd (chat eng q (a, w)))) = tools a
   \<and> prompt_template (fst (snd (chat eng q (a, w)))) = prompt_template a
   \<and> agent_executor (fst (snd (chat eng q (a, w)))) = agent_executor a
   \<and> llm (fst (snd (chat eng q (a, w)))) = llm a
   \<and> python_tool (fst (snd (chat eng q (a, w)))) = python_tool a
   \<and> agent (fst (snd (chat eng q (a, w)))) = agent a"
  by (simp add: chat_cases build_inputs_def print_def Let_def
        split: sum.splits exc.splits option.splits)

section \<open>The shell: classification of a line\<close>

lemma strip_empty_iff: "strip l = [] \<longleftrightarrow> list_all isspace l"
proof
  assume "strip l = []"
  then have all: "\<forall>x\<in>set (dropWhile isspace l). isspace x"
    by (simp add: strip_def)
  have "dropWhile isspace l = []"
  proof (rule ccontr)
    assume ne: "dropWhile isspace l \<noteq> []"
    then have "\<not> isspace (hd (dropWhile isspace l))" by (rule hd_dropWhile)
    moreover have "hd (dropWhile isspace l) \<in> set (dropWhile isspace l)" using ne by simp
    ultimately show False using all by blast
  qed
  then show "list_all isspace l" by (simp add: list_all_iff)
next
  assume "list_all isspace l"
  then have d: "dropWhile isspace l = []" by (simp add: list_all_iff)
  show "strip l = []" unfolding strip_def d by simp
qed

lemma lower_cp_space: "isspace c \<Longrightarrow> lower_cp c = c"
  by (auto simp: isspace_def lower_cp_def)

lemma lower_spaces: "list_all isspace s \<Longrightarrow> lower s = s"
  by (simp add: lower_def list_all_iff lower_cp_space map_idI)

lemma lower_append: "lower (xs @ ys) = lower xs @ lower ys"
  by (simp add: lower_def)

lemma command_ends:
  "c \<in> set [lit ''quit'', lit ''exit'', lit ''q'', lit ''clear'', lit ''clear history'',
             lit ''history'', lit ''show history''] \<Longrightarrow>
   c \<noteq> [] \<and> \<not> isspace (hd c) \<and> \<not> isspace (last c)"
  by (auto simp: lit_def isspace_def)

lemma blank_not_command:
  assumes "list_all isspace l"
  shows "lower l \<notin> set [lit ''quit'', lit ''exit'', lit ''q'', lit ''clear'', lit ''clear history'',
             lit ''history'', lit ''show history'']"
proof
  assume m: "lower l \<in> set [lit ''quit'', lit ''exit'', lit ''q'', lit ''clear'', lit ''clear history'',
             lit ''history'', lit ''show history'']"
  have eq: "lower l = l" using assms by (rule lower_spaces)
  from command_ends [OF m] have "l \<noteq> []" "\<not> isspace (hd l)" by (simp_all add: eq)
  moreover from \<open>l \<noteq> []\<close> assms have "isspace (hd l)" by (cases l) simp_all
  ultimately show False by simp
qed

lemma step_blank:
  assumes "list_all isspace l"
  shows "step eng (Line l) (a, w) =
     (Continue, a, w\<lparr>stdout := stdout w @ [input_prompt, lit ''Please enter a valid question.'' @ [10]]\<rparr>)"
proof -
  have s: "strip l = []" using assms by (simp add: strip_empty_iff)
  from blank_not_command [OF assms]
  have n: "lower l \<notin> set [lit ''quit'', lit ''exit'', lit ''q'']"
      "lower l \<notin> set [lit ''clear'', lit ''clear history'']"
      "lower l \<notin> set [lit ''history'', lit ''show history'']"
    by auto
  show ?thesis
    unfolding step_def using s n by (simp add: input_py_def print_def)
qed

lemma step_quit:
  assumes "lower l \<in> set [lit ''quit'', lit ''exit'', lit ''q'']"
  shows "step eng (Line l) (a, w) =
     (Break, a, w\<lparr>stdout := stdout w @ [input_prompt, [128075] @ lit '' Goodbye!'' @ [10]]\<rparr>)"
  unfolding step_def using assms by (simp add: input_py_def print_def)

lemma step_interrupt:
  "step eng (InputRaises KeyboardInterrupt) (a, w) =
     (Break, a, w\<lparr>stdout := stdout w @ [input_prompt, [10, 128075] @ lit '' Goodbye!'' @ [10]]\<rparr>)"
  unfolding step_def by (simp add: input_py_def print_def loop_handlers_def)

lemma main_loop_append:
  "main_loop eng pre st = (Waiting, st') \<Longrightarrow> main_loop eng (pre @ evs) st = main_loop eng evs st'"
proof (induction pre arbitrary: st)
  case Nil
  then show ?case by simp
next
  case (Cons ev pre)
  then show ?case
    by (cases "step eng ev st") (auto split: control.splits)
qed

lemma lower_examples:
  "lower (lit ''quit'') = lit ''quit''" "lower (lit ''QUIT'') = lit ''quit''" "lower (lit ''q'') = lit ''q''"
  by (simp_all add: lower_def lower_cp_def lit_def)

lemma show_turns_out:
  "show_turns i h w =
     w\<lparr>stdout := stdout w @
        concat (map (\<lambda>k. [str_of_nat (i + k) @ lit ''. Q: '' @ fst (h ! k) @ [10],
                          lit ''   A: '' @
                            (if length (snd (h ! k)) \<le> 100 then snd (h ! k)
                             else take 100 (snd (h ! k)) @ lit ''...'') @ [10]])
                  [0..<length h])\<rparr>"
proof (induction h arbitrary: i w)
  case Nil
  then show ?case by simp
next
  case (Cons t rest)
  obtain q a where t: "t = (q, a)" by (cases t)
  show ?case
    unfolding t
    by (simp add: Cons.IH print_def Let_def map_upt_Suc del: upt_Suc cong: if_cong)
qed


lemma step_core:
  assumes "engine_state w = engine_state w'"
  shows "core (step eng ev (a, w)) = core (step eng ev (a, w'))"
proof (cases ev)
  case (InputRaises e)
  then show ?thesis using assms
    by (simp add: core_def step_def input_py_def loop_handlers_def print_def split: exc.splits)
next
  case (Line l)
  have c: "core (ask eng l (a, w\<lparr>stdout := stdout w @ [input_prompt]\<rparr>)) =
           core (ask eng l (a, w'\<lparr>stdout := stdout w' @ [input_prompt]\<rparr>))"
    using assms
    by (simp add: core_def ask_def chat_cases Let_def loop_handlers_def print_def
             split: sum.splits exc.splits option.splits)
  show ?thesis
    unfolding Line step_def using assms c
    by (simp add: core_def input_py_def print_def clear_history_def show_history_def
          show_turns_out get_history_def Let_def)
qed

lemma main_loop_core:
  "engine_state w = engine_state w' \<Longrightarrow>
   core (main_loop eng evs (a, w)) = core (main_loop eng evs (a, w'))"
proof (induction evs arbitrary: a w w')
  case Nil
  then show ?case by (simp add: core_def)
next
  case (Cons ev evs)
  obtain c a1 w1 where s1: "step eng ev (a, w) = (c, a1, w1)" by (cases "step eng ev (a, w)")
  obtain c' a2 w2 where s2: "step eng ev (a, w') = (c', a2, w2)" by (cases "step eng ev (a, w')")
  from step_core [OF Cons.prems, of eng ev a] s1 s2
  have eq: "c' = c" "a2 = a1" "engine_state w1 = engine_state w2" by (simp_all add: core_def)
  show ?case
  proof (cases c)
    case Continue
    then show ?thesis using s1 s2 eq Cons.IH [OF eq(3), of a1] by simp
  next
    case Break
    then show ?thesis using s1 s2 eq by (simp add: core_def)
  next
    case (Propagate e)
    then show ?thesis using s1 s2 eq by (simp add: core_def)
  qed
qed

lemma main_loop_filter_blank:
  "core (main_loop eng (filter (\<lambda>ev. \<not> blank_line ev) evs) st) = core (main_loop eng evs st)"
proof (induction evs arbitrary: st)
  case Nil
  then show ?case by simp
next
  case (Cons ev evs)
  obtain a w where st: "st = (a, w)" by (cases st)
  show ?case
  proof (cases "blank_line ev")
    case True
    then obtain l where l: "ev = Line l" "list_all isspace l"
      by (cases ev) (simp_all add: blank_line_def)
    let ?w = "w\<lparr>stdout := stdout w @ [input_prompt, lit ''Please enter a valid question.'' @ [10]]\<rparr>"
    have "core (main_loop eng (ev # evs) st) = core (main_loop eng evs (a, ?w))"
      by (simp add: st l(1) step_blank [OF l(2)])
    also have "\<dots> = core (main_loop eng (filter (\<lambda>ev. \<not> blank_line ev) evs) (a, ?w))"
      by (simp add: Cons.IH)
    also have "\<dots> = core (main_loop eng (filter (\<lambda>ev. \<not> blank_line ev) evs) (a, w))"
      by (rule main_loop_core) simp
    finally show ?thesis using True by (simp add: st)
  next
    case False
    then show ?thesis
    proof (cases "step eng ev st")
      case (fields c a1 w1)
      then show ?thesis using False
        by (cases c) (simp_all add: Cons.IH)
    qed
  qed
qed

text \<open>
  C6. On a line that is empty or holds only whitespace the shell writes
  \<open>Please enter a valid question.\<close> and goes on, with the agent and the state of the
  engine as they were. A run over any events leaves the same agent, the same state of the
  engine and the same end as the run over the events without the blank lines: with an
  engine that counts, the number of calls of \<open>chat\<close> is the same.
\<close>

theorem blank_line_not_forwarded:
  "(list_all isspace l \<longrightarrow>
      step eng (Line l) (a, w) =
        (Continue, a,
         w\<lparr>stdout := stdout w @ [input_prompt, lit ''Please enter a valid question.'' @ [10]]\<rparr>))
   \<and> core (main_loop eng evs st) = core (main_loop eng (filter (\<lambda>ev. \<not> blank_line ev) evs) st)
   \<and> fst (engine_state (snd (snd (main_loop (counting eng) evs st')))) =
       fst (engine_state (snd (snd (main_loop (counting eng) (filter (\<lambda>ev. \<not> blank_line ev) evs) st'))))"
proof (intro conjI impI)
  assume "list_all isspace l"
  then show "step eng (Line l) (a, w) =
        (Continue, a,
         w\<lparr>stdout := stdout w @ [input_prompt, lit ''Please enter a valid question.'' @ [10]]\<rparr>)"
    by (rule step_blank)
next
  show "core (main_loop eng evs st) = core (main_loop eng (filter (\<lambda>ev. \<not> blank_line ev) evs) st)"
    by (simp add: main_loop_filter_blank)
next
  have "core (main_loop (counting eng) evs st') =
        core (main_loop (counting eng) (filter (\<lambda>ev. \<not> blank_line ev) evs) st')"
    by (simp add: main_loop_filter_blank)
  then show "fst (engine_state (snd (snd (main_loop (counting eng) evs st')))) =
       fst (engine_state (snd (snd (main_loop (counting eng) (filter (\<lambda>ev. \<not> blank_line ev) evs) st'))))"
    by (simp add: core_def)
qed

lemma script_break:
  assumes env: "load_environment e = Inr k" "path_exists e (lit ''data.csv'')"
    and pre: "main_loop eng pre (init (initialize_llm k) (lit ''data.csv''), print_welcome_message w0) = (Waiting, st)"
    and br: "step eng ev st = (Break, a', w')"
  shows "script e eng (pre @ ev # rest) w0 = (Exit 0, w')"
proof -
  have "main_loop eng (pre @ ev # rest) (init (initialize_llm k) (lit ''data.csv''), print_welcome_message w0)
        = (Returned, a', w')"
    using main_loop_append [OF pre] br by simp
  then show ?thesis using env by (simp add: script_def main_def Let_def)
qed

text \<open>
  C5. A line whose lowercase form is \<open>quit\<close>, \<open>exit\<close> or \<open>q\<close> ends the loop: the
  pass writes the farewell, and leaves the agent and the state of the engine as they were;
  the events after it are not read, and the script ends with status 0. The lines
  \<open>quit\<close>, \<open>QUIT\<close> and \<open>q\<close> do the same.
\<close>

theorem quit_terminates:
  "(lower l \<in> set [lit ''quit'', lit ''exit'', lit ''q''] \<longrightarrow>
      step eng (Line l) (a, w) =
        (Break, a, w\<lparr>stdout := stdout w @ [input_prompt, [128075] @ lit '' Goodbye!'' @ [10]]\<rparr>)
      \<and> main_loop eng (Line l # rest) (a, w) =
        (Returned, a, w\<lparr>stdout := stdout w @ [input_prompt, [128075] @ lit '' Goodbye!'' @ [10]]\<rparr>)
      \<and> (load_environment e = Inr k \<and> path_exists e (lit ''data.csv'') \<and>
         main_loop eng pre (init (initialize_llm k) (lit ''data.csv''), print_welcome_message w0)
           = (Waiting, a, w) \<longrightarrow>
         script e eng (pre @ Line l # rest) w0 =
           (Exit 0, w\<lparr>stdout := stdout w @ [input_prompt, [128075] @ lit '' Goodbye!'' @ [10]]\<rparr>)))
   \<and> step eng (Line (lit ''QUIT'')) (a, w) = step eng (Line (lit ''quit'')) (a, w)
   \<and> step eng (Line (lit ''q'')) (a, w) = step eng (Line (lit ''quit'')) (a, w)
   \<and> fst (step eng (Line (lit ''quit'')) (a, w)) = Break"
proof (intro conjI impI)
  assume q: "lower l \<in> set [lit ''quit'', lit ''exit'', lit ''q'']"
  show "step eng (Line l) (a, w) =
        (Break, a, w\<lparr>stdout := stdout w @ [input_prompt, [128075] @ lit '' Goodbye!'' @ [10]]\<rparr>)"
    using q by (rule step_quit)
  show "main_loop eng (Line l # rest) (a, w) =
        (Returned, a, w\<lparr>stdout := stdout w @ [input_prompt, [128075] @ lit '' Goodbye!'' @ [10]]\<rparr>)"
    by (simp add: step_quit [OF q])
  assume "load_environment e = Inr k \<and> path_exists e (lit ''data.csv'') \<and>
         main_loop eng pre (init (initialize_llm k) (lit ''data.csv''), print_welcome_message w0)
           = (Waiting, a, w)"
  then show "script e eng (pre @ Line l # rest) w0 =
           (Exit 0, w\<lparr>stdout := stdout w @ [input_prompt, [128075] @ lit '' Goodbye!'' @ [10]]\<rparr>)"
    using script_break [of e k eng pre w0 "(a, w)" "Line l" a _ rest] step_quit [OF q, of eng a w]
    by simp
next
  have h: "lower (lit ''QUIT'') \<in> set [lit ''quit'', lit ''exit'', lit ''q'']"
      "lower (lit ''q'') \<in> set [lit ''quit'', lit ''exit'', lit ''q'']"
      "lower (lit ''quit'') \<in> set [lit ''quit'', lit ''exit'', lit ''q'']"
    by (simp_all add: lower_examples)
  show "step eng (Line (lit ''QUIT'')) (a, w) = step eng (Line (lit ''quit'')) (a, w)"
    by (simp add: step_quit [OF h(1)] step_quit [OF h(3)])
  show "step eng (Line (lit ''q'')) (a, w) = step eng (Line (lit ''quit'')) (a, w)"
    by (simp add: step_quit [OF h(2)] step_quit [OF h(3)])
  show "fst (step eng (Line (lit ''quit'')) (a, w)) = Break"
    by (simp add: step_quit [OF h(3)])
qed

text \<open>
  C7. When the credential is missing from the environment (or empty), or the dataset
  file does not exist, the program writes its two lines of error and returns, whatever
  the input holds: nothing is read, the engine is not invoked, and the script ends with
  status 0, as it does when a pass of the loop ends it: on a quit line, on an interrupt
  in \<open>input\<close>, and on an interrupt while the engine runs.
\<close>

theorem startup_failure_returns:
  "((environ e (lit ''OPENAI_API_KEY'') = None \<or> environ e (lit ''OPENAI_API_KEY'') = Some []) \<longrightarrow>
      script e eng evs w =
        (Exit 0,
         w\<lparr>stdout := stdout w @
            [[10060] @ lit '' Failed to initialize: '' @ lit ''OPENAI_API_KEY not found in environment variables. Please check your .env file.'' @ [10],
             lit ''Please check your configuration and try again.'' @ [10]]\<rparr>))
   \<and> (environ e (lit ''OPENAI_API_KEY'') = Some k \<and> k \<noteq> [] \<and> \<not> path_exists e (lit ''data.csv'') \<longrightarrow>
      script e eng evs w =
        (Exit 0,
         w\<lparr>stdout := stdout w @
            [[10060] @ lit '' Error: CSV file '' @ [39] @ lit ''data.csv'' @ [39] @ lit '' not found.'' @ [10],
             lit ''Please ensure your data file exists and update the path in main.py'' @ [10]]\<rparr>))
   \<and> (environ e (lit ''OPENAI_API_KEY'') = Some k \<and> k \<noteq> [] \<and> path_exists e (lit ''data.csv'') \<and>
      main_loop eng pre (init (initialize_llm k) (lit ''data.csv''), print_welcome_message w) = (Waiting, st) \<and>
      fst (step eng ev st) = Break \<longrightarrow>
      fst (script e eng (pre @ ev # rest) w) = Exit 0)
   \<and> (lower l \<in> set [lit ''quit'', lit ''exit'', lit ''q''] \<longrightarrow> fst (step eng (Line l) st) = Break)
   \<and> fst (step eng (InputRaises KeyboardInterrupt) st) = Break
   \<and> (lower l \<notin> set [lit ''quit'', lit ''exit'', lit ''q'', lit ''clear'', lit ''clear history'',
                      lit ''history'', lit ''show history''] \<and> strip l \<noteq> [] \<and>
      fst (chat eng l (fst st, (snd st)\<lparr>stdout := stdout (snd st) @ [input_prompt]\<rparr>)) = Inl KeyboardInterrupt \<longrightarrow>
      fst (step eng (Line l) st) = Break)"
proof (intro conjI impI)
  assume "environ e (lit ''OPENAI_API_KEY'') = None \<or> environ e (lit ''OPENAI_API_KEY'') = Some []"
  then have "load_environment e = Inl (Exception (lit ''OPENAI_API_KEY not found in environment variables. Please check your .env file.''))"
    by (auto simp: load_environment_def)
  then show "script e eng evs w =
        (Exit 0,
         w\<lparr>stdout := stdout w @
            [[10060] @ lit '' Failed to initialize: '' @ lit ''OPENAI_API_KEY not found in environment variables. Please check your .env file.'' @ [10],
             lit ''Please check your configuration and try again.'' @ [10]]\<rparr>)"
    by (simp add: script_def main_def main_handler_def print_def)
next
  assume "environ e (lit ''OPENAI_API_KEY'') = Some k \<and> k \<noteq> [] \<and> \<not> path_exists e (lit ''data.csv'')"
  then have "load_environment e = Inr k" "\<not> path_exists e (lit ''data.csv'')"
    by (simp_all add: load_environment_def)
  then show "script e eng evs w =
        (Exit 0,
         w\<lparr>stdout := stdout w @
            [[10060] @ lit '' Error: CSV file '' @ [39] @ lit ''data.csv'' @ [39] @ lit '' not found.'' @ [10],
             lit ''Please ensure your data file exists and update the path in main.py'' @ [10]]\<rparr>)"
    by (simp add: script_def main_def print_def Let_def)
next
  assume h: "environ e (lit ''OPENAI_API_KEY'') = Some k \<and> k \<noteq> [] \<and> path_exists e (lit ''data.csv'') \<and>
      main_loop eng pre (init (initialize_llm k) (lit ''data.csv''), print_welcome_message w) = (Waiting, st) \<and>
      fst (step eng ev st) = Break"
  then have le: "load_environment e = Inr k" by (simp add: load_environment_def)
  obtain a' w' where "step eng ev st = (Break, a', w')" using h by (cases "step eng ev st") auto
  from script_break [OF le _ _ this, of pre w rest] h
  show "fst (script e eng (pre @ ev # rest) w) = Exit 0" by simp
next
  assume "lower l \<in> set [lit ''quit'', lit ''exit'', lit ''q'']"
  from step_quit [OF this, of eng "fst st" "snd st"] show "fst (step eng (Line l) st) = Break" by simp
next
  show "fst (step eng (InputRaises KeyboardInterrupt) st) = Break"
    using step_interrupt [of eng "fst st" "snd st"] by simp
next
  assume h: "lower l \<notin> set [lit ''quit'', lit ''exit'', lit ''q'', lit ''clear'', lit ''clear history'',
                      lit ''history'', lit ''show history''] \<and> strip l \<noteq> [] \<and>
      fst (chat eng l (fst st, (snd st)\<lparr>stdout := stdout (snd st) @ [input_prompt]\<rparr>)) = Inl KeyboardInterrupt"
  obtain a w where st: "st = (a, w)" by (cases st)
  from h have n: "lower l \<notin> set [lit ''quit'', lit ''exit'', lit ''q'']"
      "lower l \<notin> set [lit ''clear'', lit ''clear history'']"
      "lower l \<notin> set [lit ''history'', lit ''show history'']" "strip l \<noteq> []"
    by auto
  have "step eng (Line l) st = ask eng l (a, w\<lparr>stdout := stdout w @ [input_prompt]\<rparr>)"
    unfolding st step_def using n by (simp add: input_py_def)
  moreover obtain r a1 w1 where c: "chat eng l (a, w\<lparr>stdout := stdout w @ [input_prompt]\<rparr>) = (r, a1, w1)"
    by (cases "chat eng l (a, w\<lparr>stdout := stdout w @ [input_prompt]\<rparr>)")
  moreover have "r = Inl KeyboardInterrupt" using h c by (simp add: st)
  ultimately show "fst (step eng (Line l) st) = Break"
    by (simp add: ask_def loop_handlers_def)
qed

lemma cmd_mem_split:
  "x \<notin> set [lit ''quit'', lit ''exit'', lit ''q'', lit ''clear'', lit ''clear history'',
             lit ''history'', lit ''show history''] \<Longrightarrow>
   x \<notin> set [lit ''quit'', lit ''exit'', lit ''q''] \<and>
   x \<notin> set [lit ''clear'', lit ''clear history''] \<and>
   x \<notin> set [lit ''history'', lit ''show history'']"
  by auto

lemma step_question:
  assumes "lower l \<notin> set [lit ''quit'', lit ''exit'', lit ''q'', lit ''clear'', lit ''clear history'',
             lit ''history'', lit ''show history'']" and "strip l \<noteq> []"
  shows "step eng (Line l) (a, w) = ask eng l (a, w\<lparr>stdout := stdout w @ [input_prompt]\<rparr>)"
  unfolding step_def using cmd_mem_split [OF assms(1)] assms(2) by (simp add: input_py_def)

lemma ask_engine_state:
  "encodable l \<Longrightarrow>
   engine_state (snd (snd (ask eng l (a, w)))) =
     snd (eng (engine_state w) (agent_executor a) (build_inputs a l))"
  by (simp add: ask_def chat_cases Let_def loop_handlers_def print_def
        split: sum.splits exc.splits option.splits)

lemma lower_cp_not_space: "\<not> isspace (lower_cp x) \<Longrightarrow> \<not> isspace x"
  using lower_cp_space [of x] by auto

lemma padded:
  assumes pre: "list_all isspace pre" and post: "list_all isspace post"
    and ne: "pre @ post \<noteq> []"
    and c: "lower c \<in> set [lit ''quit'', lit ''exit'', lit ''q'', lit ''clear'', lit ''clear history'',
             lit ''history'', lit ''show history'']"
  shows "lower (pre @ c @ post) \<notin> set [lit ''quit'', lit ''exit'', lit ''q'', lit ''clear'',
             lit ''clear history'', lit ''history'', lit ''show history'']"
    and "strip (pre @ c @ post) = c"
proof -
  from command_ends [OF c] have lc: "lower c \<noteq> []" "\<not> isspace (hd (lower c))" "\<not> isspace (last (lower c))"
    by simp_all
  from lc(1) have cne: "c \<noteq> []" by (auto simp: lower_def)
  have hdc: "\<not> isspace (hd c)"
    using lc(2) cne by (simp add: lower_def hd_map lower_cp_not_space)
  have lastc: "\<not> isspace (last c)"
    using lc(3) cne by (simp add: lower_def last_map lower_cp_not_space)
  have low: "lower (pre @ c @ post) = pre @ lower c @ post"
    by (simp add: lower_append lower_spaces [OF pre] lower_spaces [OF post])
  show "lower (pre @ c @ post) \<notin> set [lit ''quit'', lit ''exit'', lit ''q'', lit ''clear'',
             lit ''clear history'', lit ''history'', lit ''show history'']"
  proof
    assume m: "lower (pre @ c @ post) \<in> set [lit ''quit'', lit ''exit'', lit ''q'', lit ''clear'',
             lit ''clear history'', lit ''history'', lit ''show history'']"
    from command_ends [OF m] have e: "\<not> isspace (hd (pre @ lower c @ post))"
        "\<not> isspace (last (pre @ lower c @ post))"
      by (simp_all add: low)
    show False
    proof (cases "pre = []")
      case False
      then have "isspace (hd (pre @ lower c @ post))" using pre by (cases pre) simp_all
      with e show False by simp
    next
      case True
      with ne have pne: "post \<noteq> []" by simp
      then have "last (pre @ lower c @ post) = last post" by simp
      moreover have "isspace (last post)" using post pne by (simp add: list_all_iff)
      ultimately show False using e by simp
    qed
  qed
  have d1: "dropWhile isspace (pre @ c @ post) = c @ post"
  proof -
    have "dropWhile isspace (pre @ c @ post) = dropWhile isspace (c @ post)"
      using pre by (intro dropWhile_append2) (simp add: list_all_iff)
    also have "\<dots> = c @ post" using cne hdc by (cases c) simp_all
    finally show ?thesis .
  qed
  have d2: "dropWhile isspace (rev post @ rev c) = rev c"
  proof -
    have "dropWhile isspace (rev post @ rev c) = dropWhile isspace (rev c)"
      using post by (intro dropWhile_append2) (simp add: list_all_iff)
    also have "\<dots> = rev c" using cne lastc by (cases "rev c") (simp_all add: last_rev [symmetric] hd_rev)
    finally show ?thesis .
  qed
  show "strip (pre @ c @ post) = c"
    unfolding strip_def d1 by (simp add: d2)
qed

lemma spaces_encodable: "list_all isspace s \<Longrightarrow> encodable s"
  by (auto simp: encodable_def list_all_iff isspace_def surrogate_def)

lemma command_encodable:
  assumes "lower c \<in> set [lit ''quit'', lit ''exit'', lit ''q'', lit ''clear'', lit ''clear history'',
             lit ''history'', lit ''show history'']"
  shows "encodable c"
proof -
  have "\<forall>y\<in>set (lower c). y < 128"
    using assms by (auto simp: lit_def)
  then have "\<forall>x\<in>set c. lower_cp x < 128" by (simp add: lower_def)
  moreover have "x \<le> lower_cp x" for x by (simp add: lower_cp_def)
  ultimately have "\<forall>x\<in>set c. x < 128" using le_less_trans by blast
  then show ?thesis by (auto simp: encodable_def list_all_iff surrogate_def)
qed

text \<open>
  C10. The shell compares the whole lowercased line with the command words and trims
  nothing. So a command word, in any case, with whitespace before or after it is no
  command, although the trimmed line is one; it is not blank either, and the pass hands
  the whole line, whitespace included, to \<open>chat\<close> as a question: the engine is invoked
  with it.
\<close>

theorem padded_command_is_question:
  "list_all isspace pre \<and> list_all isspace post \<and> pre @ post \<noteq> [] \<and>
   lower c \<in> set [lit ''quit'', lit ''exit'', lit ''q'', lit ''clear'', lit ''clear history'',
                   lit ''history'', lit ''show history''] \<longrightarrow>
     lower (pre @ c @ post) \<notin> set [lit ''quit'', lit ''exit'', lit ''q'', lit ''clear'',
                   lit ''clear history'', lit ''history'', lit ''show history'']
     \<and> strip (pre @ c @ post) = c
     \<and> step eng (Line (pre @ c @ post)) (a, w) =
         ask eng (pre @ c @ post) (a, w\<lparr>stdout := stdout w @ [input_prompt]\<rparr>)
     \<and> engine_state (snd (snd (step eng (Line (pre @ c @ post)) (a, w)))) =
         snd (eng (engine_state w) (agent_executor a) (build_inputs a (pre @ c @ post)))
     \<and> in_query (build_inputs a (pre @ c @ post)) = pre @ c @ post"
proof (intro impI, elim conjE)
  assume h: "list_all isspace pre" "list_all isspace post" "pre @ post \<noteq> []"
    "lower c \<in> set [lit ''quit'', lit ''exit'', lit ''q'', lit ''clear'', lit ''clear history'',
                   lit ''history'', lit ''show history'']"
  note p = padded [OF h]
  from command_ends [OF h(4)] have "c \<noteq> []" by (auto simp: lower_def)
  with p(2) have s: "strip (pre @ c @ post) \<noteq> []" by simp
  note q = step_question [OF p(1) s, of eng a w]
  have enc: "encodable (pre @ c @ post)"
    using spaces_encodable [OF h(1)] spaces_encodable [OF h(2)] command_encodable [OF h(4)]
    by simp
  show "lower (pre @ c @ post) \<notin> set [lit ''quit'', lit ''exit'', lit ''q'', lit ''clear'',
                   lit ''clear history'', lit ''history'', lit ''show history'']
     \<and> strip (pre @ c @ post) = c
     \<and> step eng (Line (pre @ c @ post)) (a, w) =
         ask eng (pre @ c @ post) (a, w\<lparr>stdout := stdout w @ [input_prompt]\<rparr>)
     \<and> engine_state (snd (snd (step eng (Line (pre @ c @ post)) (a, w)))) =
         snd (eng (engine_state w) (agent_executor a) (build_inputs a (pre @ c @ post)))
     \<and> in_query (build_inputs a (pre @ c @ post)) = pre @ c @ post"
    using p q by (simp add: ask_engine_state [OF enc] build_inputs_def)
qed

section \<open>The configuration of the executor\<close>

lemma step_agent_executor:
  "agent_executor (fst (snd (step eng ev (a, w)))) = agent_executor a"
proof (cases ev)
  case (InputRaises e)
  then show ?thesis
    by (simp add: step_def input_py_def loop_handlers_def split: exc.splits)
next
  case (Line l)
  have "agent_executor (fst (snd (ask eng l (a, w\<lparr>stdout := stdout w @ [input_prompt]\<rparr>)))) = agent_executor a"
    by (simp add: ask_def chat_cases Let_def loop_handlers_def
          split: sum.splits exc.splits option.splits)
  then show ?thesis
    unfolding Line step_def
    by (simp add: input_py_def clear_history_def show_history_def Let_def)
qed

lemma main_loop_agent_executor:
  "agent_executor (fst (snd (main_loop eng evs (a, w)))) = agent_executor a"
proof (induction evs arbitrary: a w)
  case Nil
  then show ?case by simp
next
  case (Cons ev evs)
  obtain c a1 w1 where s: "step eng ev (a, w) = (c, a1, w1)" by (cases "step eng ev (a, w)")
  from step_agent_executor [of eng ev a w] s have e: "agent_executor a1 = agent_executor a" by simp
  show ?case using s e Cons.IH [of a1 w1] by (cases c) simp_all
qed

lemma chat_with_max:
  assumes "max_iterations (agent_executor a) = n"
  shows "chat (with_max_iterations n eng) q (a, w) = chat eng q (a, w)"
proof -
  have "(agent_executor a)\<lparr>max_iterations := n\<rparr> = agent_executor a"
    using assms by (cases "agent_executor a") auto
  then show ?thesis by (simp add: chat_cases with_max_iterations_def cong: if_cong)
qed

lemma step_with_max:
  assumes "max_iterations (agent_executor a) = n"
  shows "step (with_max_iterations n eng) ev (a, w) = step eng ev (a, w)"
proof -
  have "\<And>l w'. ask (with_max_iterations n eng) l (a, w') = ask eng l (a, w')"
    by (simp add: ask_def chat_with_max [OF assms])
  then show ?thesis
    by (cases ev) (simp_all add: step_def input_py_def)
qed

lemma main_loop_with_max:
  "max_iterations (agent_executor a) = n \<Longrightarrow>
   main_loop (with_max_iterations n eng) evs (a, w) = main_loop eng evs (a, w)"
proof (induction evs arbitrary: a w)
  case Nil
  then show ?case by simp
next
  case (Cons ev evs)
  obtain c a1 w1 where s: "step eng ev (a, w) = (c, a1, w1)" by (cases "step eng ev (a, w)")
  from step_agent_executor [of eng ev a w] s Cons.prems
  have e: "max_iterations (agent_executor a1) = n" by simp
  show ?case
    using s Cons.IH [OF e, of w1] by (cases c) (simp_all add: step_with_max [OF Cons.prems])
qed

lemma cycles_bound:
  "length (fst (snd (cycles n R ag i pad s))) \<le> length pad + n"
proof (induction n arbitrary: pad s)
  case 0
  then show ?case by simp
next
  case (Suc n)
  obtain r s1 where r: "reason R s ag i pad = (r, s1)" by (cases "reason R s ag i pad")
  show ?case
  proof (cases r)
    case (Inl e)
    then show ?thesis using r by simp
  next
    case (Inr d)
    show ?thesis
    proof (cases d)
      case (FinalAnswer t)
      then show ?thesis using r Inr by simp
    next
      case (Action x)
      obtain o' s2 where a: "act R s1 x = (o', s2)" by (cases "act R s1 x")
      show ?thesis
      proof (cases o')
        case (Inl e)
        then show ?thesis using r Inr Action a by simp
      next
        case (Inr obs)
        from Suc.IH [of "pad @ [(x, obs)]" s2]
        show ?thesis using r \<open>r = Inr d\<close> Action a Inr by simp
      qed
    qed
  qed
qed

lemma cycles_forced:
  "length (fst (snd (cycles n R ag i pad s))) = length pad + n \<Longrightarrow>
   fst (cycles n R ag i pad s) = Inr (best_effort R i (fst (snd (cycles n R ag i pad s))))"
proof (induction n arbitrary: pad s)
  case 0
  then show ?case by simp
next
  case (Suc n)
  obtain r s1 where r: "reason R s ag i pad = (r, s1)" by (cases "reason R s ag i pad")
  show ?case
  proof (cases r)
    case (Inl e)
    then show ?thesis using r Suc.prems by simp
  next
    case (Inr d)
    show ?thesis
    proof (cases d)
      case (FinalAnswer t)
      then show ?thesis using r Inr Suc.prems by simp
    next
      case (Action x)
      obtain o' s2 where a: "act R s1 x = (o', s2)" by (cases "act R s1 x")
      show ?thesis
      proof (cases o')
        case (Inl e)
        then show ?thesis using r Inr Action a Suc.prems by simp
      next
        case (Inr obs)
        have c: "cycles (Suc n) R ag i pad s = cycles n R ag i (pad @ [(x, obs)]) s2"
          using r \<open>r = Inr d\<close> Action a Inr by simp
        from Suc.prems have "length (fst (snd (cycles n R ag i (pad @ [(x, obs)]) s2))) =
            length (pad @ [(x, obs)]) + n"
          unfolding c by simp
        from Suc.IH [OF this] show ?thesis unfolding c .
      qed
    qed
  qed
qed

lemma cycles_looping:
  "cycles n looping_reasoner ag i pad s =
     (Inr (lit ''Agent stopped due to iteration limit or time limit.''),
      pad @ replicate n (lit ''print(1)'', lit ''1''), s + n)"
proof (induction n arbitrary: pad s)
  case 0
  then show ?case by (simp add: looping_reasoner_def)
next
  case (Suc n)
  have "cycles (Suc n) looping_reasoner ag i pad s =
        cycles n looping_reasoner ag i (pad @ [(lit ''print(1)'', lit ''1'')]) (Suc s)"
    by (simp add: looping_reasoner_def)
  then show ?case by (simp add: Suc.IH replicate_app_Cons_same)
qed

text \<open>
  C8. The constructor gives the executor \<open>max_iterations = 10\<close>, over the agent built
  on the prompt whose text says \<open>can be repeated zero or 3 times\<close>. No run of the shell
  changes the executor, and every invocation of the engine is given it: a run cannot tell
  an engine from the same engine given \<open>max_iterations = 10\<close> at each invocation. The
  engine invoked on that executor, whatever the reasoning and the tool do and whatever
  the prompt says, makes at most 10 cycles; when it has made 10 it is forced to stop with
  the best-effort answer. A reasoning that never comes to a final answer is stopped after
  exactly 10 cycles, not 3, and \<open>chat\<close> returns the best-effort answer.
\<close>

theorem executor_bound_is_ten:
  "max_iterations (agent_executor (init l p)) = 10
   \<and> ra_prompt (ex_agent (agent_executor (init l p))) = prompt_template (init l p)
   \<and> (\<exists>before after. template (prompt_template (init l p)) =
         before @ lit ''can be repeated zero or 3 times'' @ after)
   \<and> agent_executor (fst (snd (main_loop eng evs (init l p, w)))) = agent_executor (init l p)
   \<and> main_loop (with_max_iterations 10 eng) evs (init l p, w) = main_loop eng evs (init l p, w)
   \<and> fst (invoke R s (agent_executor (init l p)) i) =
       map_sum id (\<lambda>t. [lit ''output'' \<mapsto> t])
         (fst (cycles 10 R (ex_agent (agent_executor (init l p))) i [] s))
   \<and> length (fst (snd (cycles (max_iterations (agent_executor (init l p))) R
                          (ex_agent (agent_executor (init l p))) i [] s))) \<le> 10
   \<and> (length (fst (snd (cycles (max_iterations (agent_executor (init l p))) R
                          (ex_agent (agent_executor (init l p))) i [] s))) = 10 \<longrightarrow>
      fst (cycles (max_iterations (agent_executor (init l p))) R
             (ex_agent (agent_executor (init l p))) i [] s) =
        Inr (best_effort R i
               (fst (snd (cycles (max_iterations (agent_executor (init l p))) R
                            (ex_agent (agent_executor (init l p))) i [] s)))))
   \<and> length (fst (snd (cycles (max_iterations (agent_executor (init l p))) looping_reasoner
                          (ex_agent (agent_executor (init l p))) i [] n))) = 10
   \<and> invoke looping_reasoner n (agent_executor (init l p)) i =
       (Inr [lit ''output'' \<mapsto> lit ''Agent stopped due to iteration limit or time limit.''],
        n + 10)
   \<and> fst (chat (invoke looping_reasoner) (lit t) (init l p, w')) =
       Inr (lit ''Agent stopped due to iteration limit or time limit.'')
   \<and> engine_state (snd (snd (chat (invoke looping_reasoner) (lit t) (init l p, w')))) =
       engine_state w' + 10"
proof (intro conjI)
  show m: "max_iterations (agent_executor (init l p)) = 10"
    by (simp add: init_def Let_def)
  show "ra_prompt (ex_agent (agent_executor (init l p))) = prompt_template (init l p)"
    by (simp add: init_def Let_def create_react_agent_def)
  have "template_repeat =
      lit ''... (this Thought/Action/Action Input/Observation '' @
      lit ''can be repeated zero or 3 times'' @ lit '')''"
    by (simp add: template_repeat_def lit_def)
  then have "template (prompt_template (init l p)) =
      (template_head @ lit ''... (this Thought/Action/Action Input/Observation '') @
      lit ''can be repeated zero or 3 times'' @ (lit '')'' @ template_tail)"
    by (simp add: init_def Let_def)
  then show "\<exists>before after. template (prompt_template (init l p)) =
         before @ lit ''can be repeated zero or 3 times'' @ after"
    by blast
  show "agent_executor (fst (snd (main_loop eng evs (init l p, w)))) = agent_executor (init l p)"
    by (simp add: main_loop_agent_executor)
  show "main_loop (with_max_iterations 10 eng) evs (init l p, w) = main_loop eng evs (init l p, w)"
    using m by (rule main_loop_with_max)
  show "fst (invoke R s (agent_executor (init l p)) i) =
       map_sum id (\<lambda>t. [lit ''output'' \<mapsto> t])
         (fst (cycles 10 R (ex_agent (agent_executor (init l p))) i [] s))"
    by (simp add: invoke_def m split: prod.splits sum.splits)
  show "length (fst (snd (cycles (max_iterations (agent_executor (init l p))) R
                          (ex_agent (agent_executor (init l p))) i [] s))) \<le> 10"
    using cycles_bound [of 10 R "ex_agent (agent_executor (init l p))" i "[]" s]
    by (simp add: m)
  show "length (fst (snd (cycles (max_iterations (agent_executor (init l p))) R
                          (ex_agent (agent_executor (init l p))) i [] s))) = 10 \<longrightarrow>
      fst (cycles (max_iterations (agent_executor (init l p))) R
             (ex_agent (agent_executor (init l p))) i [] s) =
        Inr (best_effort R i
               (fst (snd (cycles (max_iterations (agent_executor (init l p))) R
                            (ex_agent (agent_executor (init l p))) i [] s))))"
    using cycles_forced [of 10 R "ex_agent (agent_executor (init l p))" i "[]" s]
    by (simp add: m)
  show "length (fst (snd (cycles (max_iterations (agent_executor (init l p))) looping_reasoner
                          (ex_agent (agent_executor (init l p))) i [] n))) = 10"
    by (simp add: m cycles_looping)
  show iv: "invoke looping_reasoner n (agent_executor (init l p)) i =
       (Inr [lit ''output'' \<mapsto> lit ''Agent stopped due to iteration limit or time limit.''],
        n + 10)" for n i
    by (simp add: invoke_def m cycles_looping)
  show "fst (chat (invoke looping_reasoner) (lit t) (init l p, w')) =
       Inr (lit ''Agent stopped due to iteration limit or time limit.'')"
    by (simp add: chat_cases iv Let_def)
  show "engine_state (snd (snd (chat (invoke looping_reasoner) (lit t) (init l p, w')))) =
       engine_state w' + 10"
    by (simp add: chat_cases iv Let_def)
qed

section \<open>The claims at concrete runs\<close>

lemma example_agent_init:
  "init (initialize_llm (lit ''sk-test'')) (lit ''data.csv'') = example_agent"
  by (simp add: example_agent_def)

lemma example_env_loads: "load_environment example_env = Inr (lit ''sk-test'')"
  by (simp add: load_environment_def example_env_def lit_def)

lemma example_env_key:
  "environ example_env (lit ''OPENAI_API_KEY'') = Some (lit ''sk-test'')" "lit ''sk-test'' \<noteq> []"
  "path_exists example_env (lit ''data.csv'')"
  by (simp_all add: example_env_def lit_def)

theorem quit_terminates_witness:
  "lower (lit ''Exit'') \<in> set [lit ''quit'', lit ''exit'', lit ''q''] \<and>
   load_environment example_env = Inr (lit ''sk-test'') \<and>
   path_exists example_env (lit ''data.csv'') \<and>
   main_loop answering_engine [Line [32]]
     (init (initialize_llm (lit ''sk-test'')) (lit ''data.csv''), print_welcome_message example_world)
     = (Waiting, example_agent,
        (print_welcome_message example_world)\<lparr>stdout :=
           stdout (print_welcome_message example_world) @
             [input_prompt, lit ''Please enter a valid question.'' @ [10]]\<rparr>) \<and>
   fst (script example_env answering_engine ([Line [32]] @ Line (lit ''Exit'') # [Line (lit ''rows?'')])
          example_world) = Exit 0 \<and>
   engine_state (snd (script example_env answering_engine
          ([Line [32]] @ Line (lit ''Exit'') # [Line (lit ''rows?'')]) example_world)) = 0"
proof -
  have l: "lower (lit ''Exit'') \<in> set [lit ''quit'', lit ''exit'', lit ''q'']"
    by (simp add: lower_def lower_cp_def lit_def)
  have b: "list_all isspace [32]" by (simp add: isspace_def)
  have m: "main_loop answering_engine [Line [32]]
     (init (initialize_llm (lit ''sk-test'')) (lit ''data.csv''), print_welcome_message example_world)
     = (Waiting, example_agent,
        (print_welcome_message example_world)\<lparr>stdout :=
           stdout (print_welcome_message example_world) @
             [input_prompt, lit ''Please enter a valid question.'' @ [10]]\<rparr>)"
    by (simp add: step_blank [OF b] example_agent_init)
  have e: "engine_state (print_welcome_message example_world) = 0"
    by (simp add: print_welcome_message_def print_def Let_def example_world_def)
  note t = quit_terminates [where l = "lit ''Exit''" and eng = answering_engine
        and a = example_agent and e = example_env and k = "lit ''sk-test''"
        and pre = "[Line [32]]" and ?w0.0 = example_world and rest = "[Line (lit ''rows?'')]"
        and w = "(print_welcome_message example_world)\<lparr>stdout :=
           stdout (print_welcome_message example_world) @
             [input_prompt, lit ''Please enter a valid question.'' @ [10]]\<rparr>"]
  from t [THEN conjunct1, THEN mp, OF l, THEN conjunct2, THEN conjunct2, THEN mp]
    example_env_loads example_env_key(3) m
  have s: "script example_env answering_engine ([Line [32]] @ Line (lit ''Exit'') # [Line (lit ''rows?'')])
          example_world =
      (Exit 0, (print_welcome_message example_world)\<lparr>stdout :=
           stdout (print_welcome_message example_world) @
             [input_prompt, lit ''Please enter a valid question.'' @ [10]]\<rparr>
        \<lparr>stdout := stdout ((print_welcome_message example_world)\<lparr>stdout :=
           stdout (print_welcome_message example_world) @
             [input_prompt, lit ''Please enter a valid question.'' @ [10]]\<rparr>) @
           [input_prompt, [128075] @ lit '' Goodbye!'' @ [10]]\<rparr>)"
    by blast
  show ?thesis
    using l example_env_loads example_env_key(3) m e by (simp only: s) simp
qed

theorem blank_line_not_forwarded_witness:
  "list_all isspace [32, 9] \<and>
   step answering_engine (Line [32, 9]) (example_agent, example_world) =
     (Continue, example_agent,
      example_world\<lparr>stdout := stdout example_world @
         [input_prompt, lit ''Please enter a valid question.'' @ [10]]\<rparr>) \<and>
   fst (engine_state (snd (snd (main_loop (counting answering_engine)
          [Line [32, 9], Line (lit ''rows?''), Line []] (example_agent, counted_world))))) = 1"
proof -
  have b: "list_all isspace [32, 9]" by (simp add: isspace_def)
  have n: "lower (lit ''rows?'') \<notin> set [lit ''quit'', lit ''exit'', lit ''q'', lit ''clear'',
             lit ''clear history'', lit ''history'', lit ''show history'']"
      "strip (lit ''rows?'') \<noteq> []"
    by (simp_all add: lower_def lower_cp_def lit_def strip_def isspace_def)
  have f: "filter (\<lambda>ev. \<not> blank_line ev) [Line [32, 9], Line (lit ''rows?''), Line []]
           = [Line (lit ''rows?'')]"
    using n(2) by (simp add: blank_line_def isspace_def strip_empty_iff [symmetric])
  have c: "fst (engine_state (snd (snd (main_loop (counting answering_engine)
          [Line (lit ''rows?'')] (example_agent, counted_world))))) = 1"
    by (simp add: step_question [OF n] ask_def chat_cases Let_def counting_def
          answering_engine_def counted_world_def print_def)
  show ?thesis
    using blank_line_not_forwarded [where l = "[32, 9]" and eng = answering_engine
        and a = example_agent and w = example_world
        and evs = "[Line [32, 9], Line (lit ''rows?''), Line []]"
        and st' = "(example_agent, counted_world)"] b c
    by (simp only: f)
qed

theorem startup_failure_returns_witness:
  "environ no_key_env (lit ''OPENAI_API_KEY'') = None \<and>
   script no_key_env answering_engine [Line (lit ''rows?'')] example_world =
     (Exit 0,
      example_world\<lparr>stdout := stdout example_world @
         [[10060] @ lit '' Failed to initialize: '' @ lit ''OPENAI_API_KEY not found in environment variables. Please check your .env file.'' @ [10],
          lit ''Please check your configuration and try again.'' @ [10]]\<rparr>) \<and>
   environ no_file_env (lit ''OPENAI_API_KEY'') = Some (lit ''sk-test'') \<and>
   lit ''sk-test'' \<noteq> [] \<and>
   \<not> path_exists no_file_env (lit ''data.csv'') \<and>
   script no_file_env answering_engine [Line (lit ''rows?'')] example_world =
     (Exit 0,
      example_world\<lparr>stdout := stdout example_world @
         [[10060] @ lit '' Error: CSV file '' @ [39] @ lit ''data.csv'' @ [39] @ lit '' not found.'' @ [10],
          lit ''Please ensure your data file exists and update the path in main.py'' @ [10]]\<rparr>) \<and>
   environ example_env (lit ''OPENAI_API_KEY'') = Some (lit ''sk-test'') \<and>
   path_exists example_env (lit ''data.csv'') \<and>
   main_loop interrupted_engine []
     (init (initialize_llm (lit ''sk-test'')) (lit ''data.csv''), print_welcome_message example_world)
     = (Waiting, example_agent, print_welcome_message example_world) \<and>
   lower (lit ''q'') \<in> set [lit ''quit'', lit ''exit'', lit ''q''] \<and>
   fst (step interrupted_engine (Line (lit ''q'')) (example_agent, print_welcome_message example_world)) = Break \<and>
   fst (script example_env interrupted_engine ([] @ Line (lit ''q'') # []) example_world) = Exit 0 \<and>
   lower (lit ''rows?'') \<notin> set [lit ''quit'', lit ''exit'', lit ''q'', lit ''clear'', lit ''clear history'',
                      lit ''history'', lit ''show history''] \<and>
   strip (lit ''rows?'') \<noteq> [] \<and>
   fst (chat interrupted_engine (lit ''rows?'')
          (example_agent, (print_welcome_message example_world)\<lparr>stdout :=
              stdout (print_welcome_message example_world) @ [input_prompt]\<rparr>)) = Inl KeyboardInterrupt \<and>
   fst (step interrupted_engine (Line (lit ''rows?'')) (example_agent, print_welcome_message example_world)) = Break \<and>
   fst (script example_env interrupted_engine ([] @ Line (lit ''rows?'') # []) example_world) = Exit 0"
proof -
  have k: "environ no_key_env (lit ''OPENAI_API_KEY'') = None"
    by (simp add: no_key_env_def)
  have f: "environ no_file_env (lit ''OPENAI_API_KEY'') = Some (lit ''sk-test'')"
      "\<not> path_exists no_file_env (lit ''data.csv'')"
    by (simp_all add: no_file_env_def)
  have m: "main_loop interrupted_engine []
     (init (initialize_llm (lit ''sk-test'')) (lit ''data.csv''), print_welcome_message example_world)
     = (Waiting, example_agent, print_welcome_message example_world)"
    by (simp add: example_agent_init)
  have q: "lower (lit ''q'') \<in> set [lit ''quit'', lit ''exit'', lit ''q'']"
    by (simp add: lower_def lower_cp_def lit_def)
  have n: "lower (lit ''rows?'') \<notin> set [lit ''quit'', lit ''exit'', lit ''q'', lit ''clear'',
             lit ''clear history'', lit ''history'', lit ''show history'']"
      "strip (lit ''rows?'') \<noteq> []"
    by (simp_all add: lower_def lower_cp_def lit_def strip_def isspace_def)
  have c: "fst (chat interrupted_engine (lit ''rows?'')
          (example_agent, (print_welcome_message example_world)\<lparr>stdout :=
              stdout (print_welcome_message example_world) @ [input_prompt]\<rparr>)) = Inl KeyboardInterrupt"
    by (simp add: chat_cases Let_def interrupted_engine_def)
  have ne: "lit ''sk-test'' \<noteq> []" by (simp add: lit_def)
  note t1 = startup_failure_returns [where e = no_key_env and eng = answering_engine
      and evs = "[Line (lit ''rows?'')]" and w = example_world]
  note t2 = startup_failure_returns [where e = no_file_env and eng = answering_engine
      and evs = "[Line (lit ''rows?'')]" and w = example_world and k = "lit ''sk-test''"]
  note t3 = startup_failure_returns [where e = example_env and eng = interrupted_engine
      and w = example_world and k = "lit ''sk-test''" and pre = "[]"
      and st = "(example_agent, print_welcome_message example_world)"
      and ev = "Line (lit ''q'')" and l = "lit ''q''" and rest = "[]"]
  note t4 = startup_failure_returns [where e = example_env and eng = interrupted_engine
      and w = example_world and k = "lit ''sk-test''" and pre = "[]"
      and st = "(example_agent, print_welcome_message example_world)"
      and ev = "Line (lit ''rows?'')" and l = "lit ''rows?''" and rest = "[]"]
  have r1: "script no_key_env answering_engine [Line (lit ''rows?'')] example_world =
     (Exit 0,
      example_world\<lparr>stdout := stdout example_world @
         [[10060] @ lit '' Failed to initialize: '' @ lit ''OPENAI_API_KEY not found in environment variables. Please check your .env file.'' @ [10],
          lit ''Please check your configuration and try again.'' @ [10]]\<rparr>)"
    using t1 [THEN conjunct1, THEN mp] k by blast
  have r2: "script no_file_env answering_engine [Line (lit ''rows?'')] example_world =
     (Exit 0,
      example_world\<lparr>stdout := stdout example_world @
         [[10060] @ lit '' Error: CSV file '' @ [39] @ lit ''data.csv'' @ [39] @ lit '' not found.'' @ [10],
          lit ''Please ensure your data file exists and update the path in main.py'' @ [10]]\<rparr>)"
    using t2 [THEN conjunct2, THEN conjunct1, THEN mp] f ne by blast
  have b3: "fst (step interrupted_engine (Line (lit ''q'')) (example_agent, print_welcome_message example_world)) = Break"
    using t3 [THEN conjunct2, THEN conjunct2, THEN conjunct2, THEN conjunct1, THEN mp, OF q] .
  have r3: "fst (script example_env interrupted_engine ([] @ Line (lit ''q'') # []) example_world) = Exit 0"
    using t3 [THEN conjunct2, THEN conjunct2, THEN conjunct1, THEN mp] example_env_key ne m b3
    by blast
  have c': "fst (chat interrupted_engine (lit ''rows?'')
          (fst (example_agent, print_welcome_message example_world),
           (snd (example_agent, print_welcome_message example_world))\<lparr>stdout :=
              stdout (snd (example_agent, print_welcome_message example_world)) @ [input_prompt]\<rparr>))
        = Inl KeyboardInterrupt"
    using c by simp
  have b4: "fst (step interrupted_engine (Line (lit ''rows?'')) (example_agent, print_welcome_message example_world)) = Break"
    using t4 [THEN conjunct2, THEN conjunct2, THEN conjunct2, THEN conjunct2, THEN conjunct2, THEN mp]
      n c' by blast
  have r4: "fst (script example_env interrupted_engine ([] @ Line (lit ''rows?'') # []) example_world) = Exit 0"
    using t4 [THEN conjunct2, THEN conjunct2, THEN conjunct1, THEN mp] example_env_key ne m b4
    by blast
  show ?thesis
    using k r1 f ne r2 example_env_key m q b3 r3 n c b4 r4 by blast
qed

theorem padded_command_is_question_witness:
  "list_all isspace [] \<and> list_all isspace [32] \<and> [] @ [32] \<noteq> ([] :: pystr) \<and>
   lower (lit ''quit'') \<in> set [lit ''quit'', lit ''exit'', lit ''q'', lit ''clear'', lit ''clear history'',
                   lit ''history'', lit ''show history''] \<and>
   [] @ lit ''quit'' @ [32] = lit ''quit '' \<and>
   step answering_engine (Line (lit ''quit '')) (example_agent, example_world) =
     ask answering_engine (lit ''quit '')
       (example_agent, example_world\<lparr>stdout := stdout example_world @ [input_prompt]\<rparr>) \<and>
   engine_state (snd (snd (step answering_engine (Line (lit ''quit '')) (example_agent, example_world)))) = 1 \<and>
   chat_history (fst (snd (step answering_engine (Line (lit ''quit '')) (example_agent, example_world))))
     = [(lit ''quit '', lit ''re: quit '')]"
proof -
  have h: "list_all isspace []" "list_all isspace [32]" "[] @ [32] \<noteq> ([] :: pystr)"
    "lower (lit ''quit'') \<in> set [lit ''quit'', lit ''exit'', lit ''q'', lit ''clear'', lit ''clear history'',
                   lit ''history'', lit ''show history'']"
    "[] @ lit ''quit'' @ [32] = lit ''quit ''"
    by (simp_all add: isspace_def lower_def lower_cp_def lit_def)
  have a: "ask answering_engine (lit ''quit '')
       (example_agent, example_world\<lparr>stdout := stdout example_world @ [input_prompt]\<rparr>)
     = (Continue, example_agent\<lparr>chat_history := [(lit ''quit '', lit ''re: quit '')]\<rparr>,
        print ([10, 128202] @ lit '' Agent Response:'' @ [10] @ lit ''re: quit '')
          ((print ([10, 129302] @ lit '' User Question: '' @ lit ''quit '')
             (example_world\<lparr>stdout := stdout example_world @ [input_prompt]\<rparr>))\<lparr>engine_state := 1\<rparr>))"
    by (simp add: ask_def chat_cases Let_def answering_engine_def example_agent_history
          build_inputs_def example_world_def lit_def surrogate_def)
  show ?thesis
    using padded_command_is_question [where pre = "[]" and post = "[32]" and c = "lit ''quit''"
        and eng = answering_engine and a = example_agent and w = example_world] h
    by (simp add: a print_def)
qed

theorem executor_bound_is_ten_witness:
  "length (fst (snd (cycles (max_iterations (agent_executor example_agent)) looping_reasoner
       (ex_agent (agent_executor example_agent))
       (build_inputs example_agent (lit ''rows?'')) [] 0))) = 10 \<and>
   fst (cycles (max_iterations (agent_executor example_agent)) looping_reasoner
       (ex_agent (agent_executor example_agent))
       (build_inputs example_agent (lit ''rows?'')) [] 0)
     = Inr (lit ''Agent stopped due to iteration limit or time limit.'')"
proof -
  have b: "best_effort looping_reasoner i pad =
      lit ''Agent stopped due to iteration limit or time limit.''" for i pad
    by (simp add: looping_reasoner_def)
  note t = executor_bound_is_ten [where l = "initialize_llm (lit ''sk-test'')"
        and p = "lit ''data.csv''" and R = looping_reasoner
        and i = "build_inputs example_agent (lit ''rows?'')" and s = 0 and n = 0
        and eng = answering_engine and evs = "[]" and w = example_world
        and t = "''rows?''" and w' = example_world, unfolded example_agent_init]
  note len = t [THEN conjunct2, THEN conjunct2, THEN conjunct2, THEN conjunct2, THEN conjunct2,
      THEN conjunct2, THEN conjunct2, THEN conjunct2, THEN conjunct1]
  note forced = t [THEN conjunct2, THEN conjunct2, THEN conjunct2, THEN conjunct2,
      THEN conjunct2, THEN conjunct2, THEN conjunct2, THEN conjunct1, THEN mp, OF len]
  show ?thesis
    using len forced by (simp only: b)
qed

end
